theory Spec2Isabelle
  imports Main "HOL-Library.Word"
begin

section \<open>The task controller of the containerd client (client/task.go)\<close>

text \<open>
  The theory embeds the methods of \<^verbatim>\<open>task\<close> in \<^verbatim>\<open>client/task.go\<close> that issue
  remote calls and drive an IO handle. A method becomes a function from the client
  session and the task to its Go result together with the list of calls it made, in the
  order it made them. Tracing spans (\<^verbatim>\<open>tracing.StartSpan\<close>, \<^verbatim>\<open>span.End\<close>) and the
  \<^verbatim>\<open>context.Context\<close> argument have no effect on results or call order and are left out.
\<close>

subsection \<open>Errors\<close>

text \<open>
  Go's \<^verbatim>\<open>error\<close> values. \<open>Sentinel\<close> is one of the \<^verbatim>\<open>errdefs.ErrXxx\<close> values,
  \<open>GrpcStatus\<close> a transport error (status code name and description), \<open>New\<close> an
  \<^verbatim>\<open>errors.New\<close> value (or any other error that wraps nothing), and \<open>Errorf p e\<close>
  the value of \<^verbatim>\<open>fmt.Errorf\<close> whose format ends in \<^verbatim>\<open>%w\<close>: \<open>p\<close> is the formatted text
  before the verb, \<open>e\<close> the wrapped error.
\<close>

datatype errclass =
    ErrUnknown | ErrInvalidArgument | ErrNotFound | ErrAlreadyExists
  | ErrFailedPrecondition | ErrUnavailable | ErrInternal

datatype error =
    Sentinel errclass
  | GrpcStatus string string
  | New string
  | Errorf string error

fun errclass_text :: "errclass \<Rightarrow> string" where
  "errclass_text ErrUnknown = ''unknown''"
| "errclass_text ErrInvalidArgument = ''invalid argument''"
| "errclass_text ErrNotFound = ''not found''"
| "errclass_text ErrAlreadyExists = ''already exists''"
| "errclass_text ErrFailedPrecondition = ''failed precondition''"
| "errclass_text ErrUnavailable = ''unavailable''"
| "errclass_text ErrInternal = ''internal''"

text \<open>The \<^verbatim>\<open>Error()\<close> method: the message of an error.\<close>

fun Error :: "error \<Rightarrow> string" where
  "Error (Sentinel k) = errclass_text k"
| "Error (GrpcStatus c d) = ''rpc error: code = '' @ c @ '' desc = '' @ d"
| "Error (New m) = m"
| "Error (Errorf p e) = p @ Error e"

text \<open>\<^verbatim>\<open>errors.Is(err, errdefs.ErrXxx)\<close>: the chain of wrapped errors is searched.\<close>

fun errors_Is :: "error \<Rightarrow> errclass \<Rightarrow> bool" where
  "errors_Is (Sentinel k) c = (k = c)"
| "errors_Is (GrpcStatus code d) c = False"
| "errors_Is (New m) c = False"
| "errors_Is (Errorf p e) c = errors_Is e c"

definition IsNotFound :: "error \<Rightarrow> bool" where
  "IsNotFound err = errors_Is err ErrNotFound"

definition IsFailedPrecondition :: "error \<Rightarrow> bool" where
  "IsFailedPrecondition err = errors_Is err ErrFailedPrecondition"

definition IsInvalidArgument :: "error \<Rightarrow> bool" where
  "IsInvalidArgument err = errors_Is err ErrInvalidArgument"

definition IsAlreadyExists :: "error \<Rightarrow> bool" where
  "IsAlreadyExists err = errors_Is err ErrAlreadyExists"

subsection \<open>Data\<close>

type_synonym uint32 = "32 word"

text \<open>
  \<^verbatim>\<open>UnknownExitStatus\<close> is returned when the exit status of a process cannot be
  determined.
\<close>

definition UnknownExitStatus :: uint32 where
  "UnknownExitStatus = 255"

text \<open>
  A \<^verbatim>\<open>time.Time\<close> is counted in nanoseconds from the zero time, so that the zero
  value \<^verbatim>\<open>time.Time{}\<close> is \<open>0\<close>. A protobuf timestamp is a pointer and may be nil.
\<close>

type_synonym Time = int

record Timestamp =
  Seconds :: int
  Nanos :: int

text \<open>\<^verbatim>\<open>type ProcessStatus string\<close> and its constants.\<close>

type_synonym ProcessStatus = string

definition Running :: ProcessStatus where "Running = ''running''"
definition Created :: ProcessStatus where "Created = ''created''"
definition Stopped :: ProcessStatus where "Stopped = ''stopped''"
definition Paused :: ProcessStatus where "Paused = ''paused''"
definition Pausing :: ProcessStatus where "Pausing = ''pausing''"
definition Unknown :: ProcessStatus where "Unknown = ''unknown''"

record Status =
  Status :: ProcessStatus
  ExitStatus :: uint32
  ExitTime :: Time

text \<open>
  \<^verbatim>\<open>ExitStatus\<close> (declared beside \<^verbatim>\<open>Process\<close>): exit code, exit time and the
  error met while waiting, if any.
\<close>

record ExitStatus =
  code :: uint32
  exitedAt :: Time
  err :: "error option"

text \<open>
  The status enumeration of the task API and its generated \<^verbatim>\<open>String()\<close> method, for the
  six declared values.
\<close>

datatype task_Status = UNKNOWN | CREATED | RUNNING | STOPPED | PAUSED | PAUSING

fun task_Status_String :: "task_Status \<Rightarrow> string" where
  "task_Status_String UNKNOWN = ''UNKNOWN''"
| "task_Status_String CREATED = ''CREATED''"
| "task_Status_String RUNNING = ''RUNNING''"
| "task_Status_String STOPPED = ''STOPPED''"
| "task_Status_String PAUSED = ''PAUSED''"
| "task_Status_String PAUSING = ''PAUSING''"

text \<open>\<^verbatim>\<open>strings.ToLower\<close> on ASCII text.\<close>

definition lower_char :: "char \<Rightarrow> char" where
  "lower_char c =
     (let n = (of_char c :: nat) in if 65 \<le> n \<and> n \<le> 90 then char_of (n + 32) else c)"

definition ToLower :: "string \<Rightarrow> string" where
  "ToLower s = map lower_char s"

text \<open>The process description in the reply of the \<^verbatim>\<open>Get\<close> call. The reply always carries
  one: its \<^verbatim>\<open>Process\<close> pointer is not nil.\<close>

record Process_pb =
  Process_Status :: task_Status
  Process_ExitStatus :: uint32
  Process_ExitedAt :: "Timestamp option"

record GetRequest =
  Get_ContainerID :: string
  Get_ExecID :: string

record DeleteResponse =
  Delete_ExitStatus :: uint32
  Delete_ExitedAt :: "Timestamp option"

record WaitResponse =
  Wait_ExitStatus :: uint32
  Wait_ExitedAt :: "Timestamp option"

text \<open>
  A marshalled \<^verbatim>\<open>Any\<close> value, the process specification handed to \<^verbatim>\<open>Exec\<close> (a
  pointer, \<open>None\<close> when nil), and a metric.
\<close>

record Any =
  TypeUrl :: string
  Value :: string

record specs_Process =
  Args :: "string list"
  Cwd :: string

record types_Metric =
  Metric_ID :: string
  Metric_Data :: Any

record ExecProcessRequest =
  Exec_ContainerID :: string
  Exec_ExecID :: string
  Exec_Terminal :: bool
  Exec_Stdin :: string
  Exec_Stdout :: string
  Exec_Stderr :: string
  Exec_Spec :: Any

text \<open>
  Descriptors: \<^verbatim>\<open>v1.Descriptor\<close> of the image specification (with an optional
  platform) and \<^verbatim>\<open>types.Descriptor\<close> of the task API. \<open>zero_Descriptor\<close> is
  \<^verbatim>\<open>v1.Descriptor{}\<close>.
\<close>

record v1_Platform =
  OS :: string
  Architecture :: string

record v1_Descriptor =
  Desc_MediaType :: string
  Desc_Digest :: string
  Desc_Size :: int
  Desc_Platform :: "v1_Platform option"
  Desc_Annotations :: "string \<rightharpoonup> string"

definition zero_Descriptor :: v1_Descriptor where
  "zero_Descriptor =
     \<lparr>Desc_MediaType = '''', Desc_Digest = '''', Desc_Size = 0, Desc_Platform = None,
      Desc_Annotations = Map.empty\<rparr>"

record types_Descriptor =
  Pb_MediaType :: string
  Pb_Digest :: string
  Pb_Size :: int
  Pb_Annotations :: "string \<rightharpoonup> string"

record v1_Index =
  SchemaVersion :: nat
  Manifests :: "v1_Descriptor list"
  Index_Annotations :: "string \<rightharpoonup> string"

text \<open>
  \<^verbatim>\<open>images.Image\<close>; \<open>zero_Image\<close> is \<^verbatim>\<open>images.Image{}\<close>.
\<close>

record images_Image =
  Image_Name :: string
  Image_Labels :: "string \<rightharpoonup> string"
  Image_Target :: v1_Descriptor

definition zero_Image :: images_Image where
  "zero_Image =
     \<lparr>Image_Name = '''', Image_Labels = Map.empty, Image_Target = zero_Descriptor\<rparr>"

text \<open>The fields of \<^verbatim>\<open>containers.Container\<close> that \<^verbatim>\<open>Checkpoint\<close> reads.\<close>

record Container =
  Runtime_Name :: string
  Container_Image :: string
  SnapshotKey :: string
  Snapshotter :: string

text \<open>
  The runtime options behind \<^verbatim>\<open>interface{}\<close>: a pointer, not nil, to the runc
  \<^verbatim>\<open>options.CheckpointOptions\<close>, or a value of some other type. A nil interface is
  \<open>None\<close>.
\<close>

record options_CheckpointOptions =
  Exit :: bool
  ImagePath :: string
  WorkPath :: string

datatype Options_value =
    CheckpointOptions options_CheckpointOptions
  | OtherOptions string

record CheckpointTaskRequest =
  Checkpoint_ContainerID :: string
  Checkpoint_ParentCheckpoint :: string
  Checkpoint_Options :: "Any option"

text \<open>
  A \<^verbatim>\<open>cio.IO\<close> handle: the configuration it reports through \<^verbatim>\<open>Config()\<close>. Its
  methods \<^verbatim>\<open>Cancel\<close>, \<^verbatim>\<open>Wait\<close> and \<^verbatim>\<open>Close\<close> appear as events.
\<close>

record cio_Config =
  Terminal :: bool
  Stdin :: string
  Stdout :: string
  Stderr :: string

record cio_IO =
  Config :: cio_Config

text \<open>
  The \<^verbatim>\<open>task\<close> struct. The client and the container it points to are the \<open>Client\<close>
  record below; \<open>task_io\<close> is \<open>None\<close> for a nil IO handle.
\<close>

record task =
  task_io :: "cio_IO option"
  task_id :: string
  task_pid :: uint32

text \<open>
  How an operation ends where it need not return: it returns a value, it blocks, or it
  panics.
\<close>

datatype 'a outcome = Done 'a | Blocks | Panics

subsection \<open>Calls made, in order\<close>

datatype event =
    Call_DeleteOpt
  | Call_defaultRuntime
  | TaskService_Get GetRequest
  | TaskService_Delete string
  | TaskService_Pause string
  | TaskService_Resume string
  | TaskService_Wait string
  | TaskService_Exec ExecProcessRequest
  | TaskService_Checkpoint CheckpointTaskRequest
  | TaskService_Metrics "string list"
  | IO_Create string
  | IO_Cancel cio_IO
  | IO_Wait cio_IO
  | IO_Close cio_IO
  | Call_MarshalAnyToProto
  | Client_WithLease
  | Lease_done
  | ContainerService_Get string
  | Call_CheckpointTaskOpt
  | ImageService_Get string
  | ImageService_Create images_Image
  | Call_CreateDiff string string string
  | Call_json_Marshal
  | Store_Writer string
  | Writer_Copy
  | Writer_Commit int
  | Writer_Close

subsection \<open>The client session\<close>

text \<open>
  What the methods take from outside \<^verbatim>\<open>task.go\<close>: the replies of the remote
  services, of the content store, of the image catalog and of the diff engine as functions
  of the request; the error translation \<^verbatim>\<open>errgrpc.ToNative\<close>; the timestamp
  conversion \<^verbatim>\<open>protobuf.FromTimestamp\<close>; the marshalling \<^verbatim>\<open>typeurl.MarshalAnyToProto\<close>
  (of a process specification, of runtime options) and \<^verbatim>\<open>json.Marshal\<close>; the results of
  \<^verbatim>\<open>Client.defaultRuntime\<close> and \<^verbatim>\<open>Client.WithLease\<close>; the constants
  \<^verbatim>\<open>plugins.RuntimePlugin.String()\<close>, \<^verbatim>\<open>plugins.RuntimeRuncV2\<close>, \<^verbatim>\<open>runtime.GOOS\<close> and
  \<^verbatim>\<open>runtime.GOARCH\<close>; and \<^verbatim>\<open>time.Now().Format\<close>. A call that returns only an error
  has an \<open>error option\<close> reply, \<open>None\<close> for nil. A method makes each of these calls
  at most once, so one reply for each request describes a run.
\<close>

record Client =
  ToNative :: "error \<Rightarrow> error"
  FromTimestamp :: "Timestamp option \<Rightarrow> Time"
  RuntimePlugin_String :: string
  RuntimeRuncV2 :: string
  GOOS :: string
  GOARCH :: string
  Now_Format :: "string \<Rightarrow> string"
  defaultRuntime :: "error + string"
  WithLease :: "error option"
  Get_reply :: "GetRequest \<Rightarrow> error + Process_pb"
  Delete_reply :: "string \<Rightarrow> error + DeleteResponse"
  Pause_reply :: "string \<Rightarrow> error option"
  Resume_reply :: "string \<Rightarrow> error option"
  Wait_reply :: "string \<Rightarrow> error + WaitResponse"
  Exec_reply :: "ExecProcessRequest \<Rightarrow> error option"
  Checkpoint_reply :: "CheckpointTaskRequest \<Rightarrow> error + types_Descriptor list"
  Metrics_reply :: "string list \<Rightarrow> error + types_Metric list option"
  Marshal_spec :: "specs_Process option \<Rightarrow> error + Any"
  Marshal_options :: "Options_value \<Rightarrow> error + Any"
  ContainerGet_reply :: "string \<Rightarrow> error + Container"
  ImageGet_reply :: "string \<Rightarrow> error + images_Image"
  ImageCreate_reply :: "images_Image \<Rightarrow> error + images_Image"
  CreateDiff_reply :: "string \<Rightarrow> string \<Rightarrow> string \<Rightarrow> error + v1_Descriptor"
  json_Marshal :: "v1_Index \<Rightarrow> error + string"
  Writer_reply :: "string \<Rightarrow> error option"
  Copy_reply :: "string \<Rightarrow> error + int"
  Commit_reply :: "int \<Rightarrow> error option"
  Writer_Digest :: "string \<Rightarrow> string"

subsection \<open>Status\<close>

text \<open>
  \<^verbatim>\<open>func (t *task) Status(ctx) (Status, error)\<close>. Both return values are kept: on a
  failed call the first is the zero \<^verbatim>\<open>Status{}\<close>.
\<close>

definition zero_Status :: Status where
  "zero_Status = \<lparr>Status = '''', ExitStatus = 0, ExitTime = 0\<rparr>"

definition task_Status :: "Client \<Rightarrow> task \<Rightarrow> (Status \<times> error option) \<times> event list" where
  "task_Status cl t =
     (let req = \<lparr>Get_ContainerID = task_id t, Get_ExecID = ''''\<rparr> in
      case Get_reply cl req of
        Inl e \<Rightarrow> ((zero_Status, Some (ToNative cl e)), [TaskService_Get req])
      | Inr r \<Rightarrow>
          ((\<lparr>Status = ToLower (task_Status_String (Process_Status r)),
             ExitStatus = Process_ExitStatus r,
             ExitTime = FromTimestamp cl (Process_ExitedAt r)\<rparr>, None),
           [TaskService_Get req]))"

subsection \<open>Delete\<close>

text \<open>
  A \<^verbatim>\<open>ProcessDeleteOpts\<close> is called with the task (through a pointer, so it may change
  it) and may fail. The loop over the options stops at the first failure.
\<close>

type_synonym ProcessDeleteOpts = "task \<Rightarrow> error option \<times> task"

fun run_delete_opts :: "ProcessDeleteOpts list \<Rightarrow> task \<Rightarrow> error option \<times> task \<times> event list" where
  "run_delete_opts [] t = (None, t, [])"
| "run_delete_opts (opt # opts) t =
     (case opt t of
        (Some e, t') \<Rightarrow> (Some e, t', [Call_DeleteOpt])
      | (None, t') \<Rightarrow>
          (case run_delete_opts opts t' of (r, t'', tr) \<Rightarrow> (r, t'', Call_DeleteOpt # tr)))"

text \<open>
  The \<^verbatim>\<open>switch status.Status\<close> of \<^verbatim>\<open>Delete\<close>: \<open>True\<close> where a case leaves the switch
  (\<^verbatim>\<open>break\<close> or an empty case body), \<open>False\<close> where control reaches the \<^verbatim>\<open>default\<close>
  body, directly or through \<^verbatim>\<open>fallthrough\<close>.
\<close>

definition Delete_switch :: "Client \<Rightarrow> task \<Rightarrow> string \<Rightarrow> Status \<Rightarrow> bool" where
  "Delete_switch cl t runtime status =
     (if Status status = Stopped \<or> Status status = Unknown \<or> Status status = '''' then True
      else if Status status = Created then
        (if runtime = RuntimePlugin_String cl @ ''.windows'' then True
         else if task_pid t = 0 then True
         else False)
      else False)"

text \<open>Lines 397 to 421: the IO handle is wound down around the delete call.\<close>

definition Delete_call :: "Client \<Rightarrow> task \<Rightarrow> string \<Rightarrow> (error + ExitStatus) \<times> event list" where
  "Delete_call cl t runtime =
     (let before =
            (case task_io t of
               None \<Rightarrow> []
             | Some i \<Rightarrow>
                 (if runtime = RuntimePlugin_String cl @ ''.windows'' then [IO_Close i] else [])
                 @ [IO_Cancel i, IO_Wait i])
      in case Delete_reply cl (task_id t) of
           Inl e \<Rightarrow> (Inl (ToNative cl e), before @ [TaskService_Delete (task_id t)])
         | Inr r \<Rightarrow>
             (Inr \<lparr>code = Delete_ExitStatus r,
                   exitedAt = FromTimestamp cl (Delete_ExitedAt r),
                   err = None\<rparr>,
              before @ [TaskService_Delete (task_id t)]
              @ (case task_io t of None \<Rightarrow> [] | Some i \<Rightarrow> [IO_Close i])))"

definition Delete :: "Client \<Rightarrow> task \<Rightarrow> ProcessDeleteOpts list \<Rightarrow> (error + ExitStatus) \<times> event list" where
  "Delete cl t0 opts =
     (case run_delete_opts opts t0 of
        (Some e, t, tr0) \<Rightarrow> (Inl e, tr0)
      | (None, t, tr0) \<Rightarrow>
          (case task_Status cl t of
             ((status, serr), tr1) \<Rightarrow>
               (case (case serr of
                        None \<Rightarrow> None
                      | Some e \<Rightarrow> if IsNotFound e then Some e else None) of
                  Some e \<Rightarrow> (Inl e, tr0 @ tr1)
                | None \<Rightarrow>
                    (case defaultRuntime cl of
                       Inl e \<Rightarrow>
                         (Inl (Errorf ''failed to get default runtime: '' e),
                          tr0 @ tr1 @ [Call_defaultRuntime])
                     | Inr runtime \<Rightarrow>
                         if Delete_switch cl t runtime status then
                           (case Delete_call cl t runtime of
                              (r, tr2) \<Rightarrow> (r, tr0 @ tr1 @ [Call_defaultRuntime] @ tr2))
                         else
                           (Inl (Errorf (''task must be stopped before deletion: ''
                                         @ Status status @ '': '')
                                   (Sentinel ErrFailedPrecondition)),
                            tr0 @ tr1 @ [Call_defaultRuntime])))))"

subsection \<open>Pause and Resume\<close>

text \<open>Both return \<^verbatim>\<open>errgrpc.ToNative(err)\<close>, which is nil for a nil error.\<close>

definition Pause :: "Client \<Rightarrow> task \<Rightarrow> error option \<times> event list" where
  "Pause cl t =
     (map_option (ToNative cl) (Pause_reply cl (task_id t)), [TaskService_Pause (task_id t)])"

definition Resume :: "Client \<Rightarrow> task \<Rightarrow> error option \<times> event list" where
  "Resume cl t =
     (map_option (ToNative cl) (Resume_reply cl (task_id t)), [TaskService_Resume (task_id t)])"

subsection \<open>Wait\<close>

text \<open>
  A buffered Go channel: the values sent and not yet received, the capacity given to
  \<^verbatim>\<open>make\<close>, and whether it has been closed. A send on a full channel blocks, a send on
  a closed channel and a second close panic. A receive takes the oldest buffered value;
  on an empty channel it blocks while the channel is open and reports the end once it is
  closed.
\<close>

record 'a chan =
  buf :: "'a list"
  cap :: nat
  closed :: bool

definition make_chan :: "nat \<Rightarrow> 'a chan" where
  "make_chan n = \<lparr>buf = [], cap = n, closed = False\<rparr>"

datatype 'a chan_op = Send 'a | Close

fun chan_do :: "'a chan_op \<Rightarrow> 'a chan \<Rightarrow> 'a chan outcome" where
  "chan_do (Send v) c =
     (if closed c then Panics
      else if length (buf c) < cap c then Done (c\<lparr>buf := buf c @ [v]\<rparr>)
      else Blocks)"
| "chan_do Close c = (if closed c then Panics else Done (c\<lparr>closed := True\<rparr>))"

definition chan_recv :: "'a chan \<Rightarrow> ('a option \<times> 'a chan) outcome" where
  "chan_recv c =
     (case buf c of
        v # vs \<Rightarrow> Done (Some v, c\<lparr>buf := vs\<rparr>)
      | [] \<Rightarrow> if closed c then Done (None, c) else Blocks)"

text \<open>
  \<^verbatim>\<open>Wait\<close> makes the channel, starts the goroutine and returns the channel with a nil
  error. The goroutine is the list of channel operations it performs once the wait call
  has returned: one send, then the deferred \<^verbatim>\<open>close(c)\<close>.
\<close>

definition Wait_goroutine :: "Client \<Rightarrow> task \<Rightarrow> ExitStatus chan_op list \<times> event list" where
  "Wait_goroutine cl t =
     (case Wait_reply cl (task_id t) of
        Inl e \<Rightarrow>
          ([Send \<lparr>code = UnknownExitStatus, exitedAt = 0, err = Some e\<rparr>, Close],
           [TaskService_Wait (task_id t)])
      | Inr r \<Rightarrow>
          ([Send \<lparr>code = Wait_ExitStatus r, exitedAt = FromTimestamp cl (Wait_ExitedAt r),
                  err = None\<rparr>, Close],
           [TaskService_Wait (task_id t)]))"

definition Wait :: "Client \<Rightarrow> task \<Rightarrow> (ExitStatus chan \<times> error option) \<times> ExitStatus chan_op list" where
  "Wait cl t = ((make_chan 1, None), fst (Wait_goroutine cl t))"

text \<open>
  The goroutine and the caller run side by side on the channel. A schedule says whose turn
  it is; on its turn the goroutine performs its next operation, the caller tries to
  receive. \<open>stuck\<close> records that the goroutine had the turn and could not perform its
  operation (it blocked or panicked); \<open>got\<close> is what the caller has received.
\<close>

datatype turn = Goroutine | Caller

record 'a sys =
  ch :: "'a chan"
  todo :: "'a chan_op list"
  got :: "'a list"
  stuck :: bool

fun sys_step :: "'a sys \<Rightarrow> turn \<Rightarrow> 'a sys" where
  "sys_step s Goroutine =
     (case todo s of
        [] \<Rightarrow> s
      | op # ops \<Rightarrow>
          (case chan_do op (ch s) of
             Done c \<Rightarrow> s\<lparr>ch := c, todo := ops\<rparr>
           | Blocks \<Rightarrow> s\<lparr>stuck := True\<rparr>
           | Panics \<Rightarrow> s\<lparr>stuck := True\<rparr>))"
| "sys_step s Caller =
     (case chan_recv (ch s) of
        Done (Some v, c) \<Rightarrow> s\<lparr>ch := c, got := got s @ [v]\<rparr>
      | Done (None, c) \<Rightarrow> s
      | Blocks \<Rightarrow> s
      | Panics \<Rightarrow> s)"

definition run_Wait :: "Client \<Rightarrow> task \<Rightarrow> turn list \<Rightarrow> ExitStatus sys" where
  "run_Wait cl t schedule =
     (case Wait cl t of
        ((c, e), ops) \<Rightarrow> foldl sys_step \<lparr>ch = c, todo = ops, got = [], stuck = False\<rparr> schedule)"

subsection \<open>Exec\<close>

text \<open>
  The \<^verbatim>\<open>process\<close> struct returned by \<^verbatim>\<open>Exec\<close>. A \<^verbatim>\<open>cio.Creator\<close> is called with the
  exec id and returns an IO handle or an error; the handle it returns is not nil, so the
  test \<^verbatim>\<open>i != nil\<close> of the deferred function holds.
\<close>

record process =
  process_id :: string
  process_task :: task
  process_io :: "cio_IO option"

type_synonym cio_Creator = "string \<Rightarrow> error + cio_IO"

text \<open>
  The function deferred after \<^verbatim>\<open>ioCreate\<close> runs when \<^verbatim>\<open>Exec\<close> returns, so its calls
  come last: \<^verbatim>\<open>Cancel\<close> and \<^verbatim>\<open>Close\<close> when the returned error is not nil.
\<close>

definition Exec :: "Client \<Rightarrow> task \<Rightarrow> string \<Rightarrow> specs_Process option \<Rightarrow> cio_Creator
    \<Rightarrow> (error + process) \<times> event list" where
  "Exec cl t eid spec ioCreate =
     (if eid = '''' then
        (Inl (Errorf ''exec id must not be empty: '' (Sentinel ErrInvalidArgument)), [])
      else
        (case ioCreate eid of
           Inl e \<Rightarrow> (Inl e, [IO_Create eid])
         | Inr i \<Rightarrow>
             (case
                (case Marshal_spec cl spec of
                   Inl e \<Rightarrow> (Inl e, [Call_MarshalAnyToProto])
                 | Inr pSpec \<Rightarrow>
                     (let cfg = Config i;
                          request =
                            \<lparr>Exec_ContainerID = task_id t,
                             Exec_ExecID = eid,
                             Exec_Terminal = Terminal cfg,
                             Exec_Stdin = Stdin cfg,
                             Exec_Stdout = Stdout cfg,
                             Exec_Stderr = Stderr cfg,
                             Exec_Spec = pSpec\<rparr>
                      in case Exec_reply cl request of
                           Some e \<Rightarrow>
                             (Inl (ToNative cl e),
                              [Call_MarshalAnyToProto, TaskService_Exec request,
                               IO_Cancel i, IO_Wait i, IO_Close i])
                         | None \<Rightarrow>
                             (Inr \<lparr>process_id = eid, process_task = t, process_io = Some i\<rparr>,
                              [Call_MarshalAnyToProto, TaskService_Exec request])))
              of
                (Inl retErr, tr) \<Rightarrow> (Inl retErr, [IO_Create eid] @ tr @ [IO_Cancel i, IO_Close i])
              | (Inr p, tr) \<Rightarrow> (Inr p, [IO_Create eid] @ tr))))"

subsection \<open>Metrics\<close>


subsection \<open>Checkpoint\<close>

record CheckpointTaskInfo =
  Name :: string
  ParentCheckpoint :: string
  Options :: "Options_value option"
  runtime :: string

text \<open>
  A \<^verbatim>\<open>CheckpointTaskOpts\<close> is called with a pointer to the info and may fail. The loop
  stops at the first failure.
\<close>

type_synonym CheckpointTaskOpts = "CheckpointTaskInfo \<Rightarrow> error option \<times> CheckpointTaskInfo"

fun run_checkpoint_opts :: "CheckpointTaskOpts list \<Rightarrow> CheckpointTaskInfo
    \<Rightarrow> (error + CheckpointTaskInfo) \<times> event list" where
  "run_checkpoint_opts [] i = (Inr i, [])"
| "run_checkpoint_opts (opt # opts) i =
     (case opt i of
        (Some e, i') \<Rightarrow> (Inl e, [Call_CheckpointTaskOpt])
      | (None, i') \<Rightarrow>
          (case run_checkpoint_opts opts i' of (r, tr) \<Rightarrow> (r, Call_CheckpointTaskOpt # tr)))"

definition checkpointDateFormat :: string where
  "checkpointDateFormat = ''01-02-2006-15:04:05''"

text \<open>\<^verbatim>\<open>fmt.Sprintf(checkpointNameFormat, a, b)\<close>.\<close>

definition checkpointNameFormat :: "string \<Rightarrow> string \<Rightarrow> string" where
  "checkpointNameFormat a b = ''containerd.io/checkpoint/'' @ a @ '':'' @ b"

text \<open>
  A step that may fail, followed by the rest of the function: the Go idiom
  \<^verbatim>\<open>if err != nil { return nil, err }\<close>. The calls made so far are kept.
\<close>

definition andThen :: "(error + 'a) \<times> event list \<Rightarrow> ('a \<Rightarrow> (error + 'b) \<times> event list)
    \<Rightarrow> (error + 'b) \<times> event list" where
  "andThen m f =
     (case m of
        (Inl e, tr) \<Rightarrow> (Inl e, tr)
      | (Inr x, tr) \<Rightarrow> (case f x of (r, tr') \<Rightarrow> (r, tr @ tr')))"

text \<open>
  \<^verbatim>\<open>checkpointTask\<close>, \<^verbatim>\<open>checkpointRWSnapshot\<close> and \<^verbatim>\<open>checkpointImage\<close> append to the
  index they are given a pointer to; here they return the new index.
\<close>

definition checkpointTask :: "Client \<Rightarrow> task \<Rightarrow> v1_Index \<Rightarrow> CheckpointTaskRequest
    \<Rightarrow> (error + v1_Index) \<times> event list" where
  "checkpointTask cl t index request =
     (case Checkpoint_reply cl request of
        Inl e \<Rightarrow> (Inl (ToNative cl e), [TaskService_Checkpoint request])
      | Inr descriptors \<Rightarrow>
          (Inr (foldl (\<lambda>ix d. ix\<lparr>Manifests := Manifests ix @
                        [\<lparr>Desc_MediaType = Pb_MediaType d,
                          Desc_Digest = Pb_Digest d,
                          Desc_Size = Pb_Size d,
                          Desc_Platform = Some \<lparr>OS = GOOS cl, Architecture = GOARCH cl\<rparr>,
                          Desc_Annotations = Pb_Annotations d\<rparr>]\<rparr>)
                  index descriptors),
           [TaskService_Checkpoint request]))"

definition checkpointRWSnapshot :: "Client \<Rightarrow> task \<Rightarrow> v1_Index \<Rightarrow> string \<Rightarrow> string
    \<Rightarrow> (error + v1_Index) \<times> event list" where
  "checkpointRWSnapshot cl t index snapshotterName sid =
     (let ref = ''checkpoint-rw-'' @ sid in
      case CreateDiff_reply cl sid snapshotterName ref of
        Inl e \<Rightarrow> (Inl e, [Call_CreateDiff sid snapshotterName ref])
      | Inr rw \<Rightarrow>
          (Inr (index\<lparr>Manifests := Manifests index @
                  [rw\<lparr>Desc_Platform := Some \<lparr>OS = GOOS cl, Architecture = GOARCH cl\<rparr>\<rparr>]\<rparr>),
           [Call_CreateDiff sid snapshotterName ref]))"

definition checkpointImage :: "Client \<Rightarrow> task \<Rightarrow> v1_Index \<Rightarrow> string
    \<Rightarrow> (error + v1_Index) \<times> event list" where
  "checkpointImage cl t index imageName =
     (if imageName = '''' then (Inl (New ''cannot checkpoint image with empty name''), [])
      else
        (case ImageGet_reply cl imageName of
           Inl e \<Rightarrow> (Inl e, [ImageService_Get imageName])
         | Inr ir \<Rightarrow>
             (Inr (index\<lparr>Manifests := Manifests index @ [Image_Target ir]\<rparr>),
              [ImageService_Get imageName])))"

text \<open>
  \<^verbatim>\<open>writeContent\<close>: the writer is closed by a deferred call on every path after it was
  opened; a commit that fails with already-exists is not a failure.
\<close>

definition writeContent :: "Client \<Rightarrow> string \<Rightarrow> string \<Rightarrow> string
    \<Rightarrow> (error + v1_Descriptor) \<times> event list" where
  "writeContent cl mediaType ref r =
     (case Writer_reply cl ref of
        Some e \<Rightarrow> (Inl e, [Store_Writer ref])
      | None \<Rightarrow>
          (case Copy_reply cl r of
             Inl e \<Rightarrow> (Inl e, [Store_Writer ref, Writer_Copy, Writer_Close])
           | Inr sz \<Rightarrow>
               (case (case Commit_reply cl sz of
                        None \<Rightarrow> None
                      | Some e \<Rightarrow> if \<not> IsAlreadyExists e then Some e else None) of
                  Some e \<Rightarrow>
                    (Inl e, [Store_Writer ref, Writer_Copy, Writer_Commit sz, Writer_Close])
                | None \<Rightarrow>
                    (Inr \<lparr>Desc_MediaType = mediaType,
                          Desc_Digest = Writer_Digest cl r,
                          Desc_Size = sz,
                          Desc_Platform = None,
                          Desc_Annotations = Map.empty\<rparr>,
                     [Store_Writer ref, Writer_Copy, Writer_Commit sz, Writer_Close]))))"

text \<open>
  Modelled from the spec: \<^verbatim>\<open>writeIndex\<close> is called by \<^verbatim>\<open>Checkpoint\<close> and is not in
  \<^verbatim>\<open>task.go\<close>. The spec has it publish the assembled index as content: the index is
  serialised and written to the content store through \<^verbatim>\<open>writeContent\<close> under the
  given reference, with the media type of an image index.
\<close>

definition MediaTypeImageIndex :: string where
  "MediaTypeImageIndex = ''application/vnd.oci.image.index.v1+json''"

definition writeIndex :: "Client \<Rightarrow> v1_Index \<Rightarrow> string \<Rightarrow> (error + v1_Descriptor) \<times> event list" where
  "writeIndex cl index ref =
     andThen (json_Marshal cl index, [Call_json_Marshal])
       (\<lambda>data. writeContent cl MediaTypeImageIndex ref data)"

text \<open>\<^verbatim>\<open>isCheckpointPathExist\<close>: only suitable for the runc runtime.\<close>

definition isCheckpointPathExist :: "Client \<Rightarrow> string \<Rightarrow> Options_value option \<Rightarrow> bool" where
  "isCheckpointPathExist cl rt v =
     (case v of
        None \<Rightarrow> False
      | Some x \<Rightarrow>
          if rt = RuntimeRuncV2 cl then
            (case x of
               CheckpointOptions opts \<Rightarrow> if ImagePath opts \<noteq> '''' then True else False
             | OtherOptions other \<Rightarrow> False)
          else False)"

text \<open>
  Modelled from the spec: \<^verbatim>\<open>NewImage\<close> is called by \<^verbatim>\<open>Checkpoint\<close> and is not in
  \<^verbatim>\<open>task.go\<close>. The spec has \<^verbatim>\<open>Checkpoint\<close> return a synthetic empty image from the zero
  record, and otherwise the newly registered image as the handle of the checkpoint: the
  handle made from an image record is that record.
\<close>

definition NewImage :: "Client \<Rightarrow> images_Image \<Rightarrow> images_Image" where
  "NewImage cl im = im"

text \<open>
  Lines 572 to 612 of \<^verbatim>\<open>Checkpoint\<close>: the index is filled by the runtime-state call, the
  image lookup and the snapshot diff, then written and registered as an image.
\<close>

definition Checkpoint_capture :: "Client \<Rightarrow> task \<Rightarrow> Container \<Rightarrow> CheckpointTaskInfo
    \<Rightarrow> CheckpointTaskRequest \<Rightarrow> (error + images_Image) \<times> event list" where
  "Checkpoint_capture cl t cr i request =
     andThen
       (checkpointTask cl t
          \<lparr>SchemaVersion = 2, Manifests = [], Index_Annotations = Map.empty\<rparr> request)
       (\<lambda>index1.
          if isCheckpointPathExist cl (Runtime_Name cr) (Options i) then (Inr (NewImage cl zero_Image), [])
          else
            andThen
              (if Container_Image cr \<noteq> '''' then
                 andThen (checkpointImage cl t index1 (Container_Image cr))
                   (\<lambda>ix. (Inr (ix\<lparr>Index_Annotations :=
                                    (Index_Annotations ix)(''image.name'' \<mapsto> Container_Image cr)\<rparr>),
                          []))
               else (Inr index1, []))
              (\<lambda>index2.
                 andThen
                   (if SnapshotKey cr \<noteq> '''' then
                      checkpointRWSnapshot cl t index2 (Snapshotter cr) (SnapshotKey cr)
                    else (Inr index2, []))
                   (\<lambda>index3.
                      andThen (writeIndex cl index3 (task_id t))
                        (\<lambda>desc.
                           (let im = \<lparr>Image_Name = Name i,
                                      Image_Labels = [''containerd.io/checkpoint'' \<mapsto> ''true''],
                                      Image_Target = desc\<rparr>
                            in andThen (ImageCreate_reply cl im, [ImageService_Create im])
                                 (\<lambda>created. (Inr (NewImage cl created), [])))))))"

text \<open>
  A Go result pair, value and error, read as a step that may fail; likewise a lone error.
\<close>

definition check :: "('a \<times> error option) \<times> event list \<Rightarrow> (error + 'a) \<times> event list" where
  "check m =
     (case m of
        ((x, Some e), tr) \<Rightarrow> (Inl e, tr)
      | ((x, None), tr) \<Rightarrow> (Inr x, tr))"

definition check_err :: "error option \<times> event list \<Rightarrow> (error + unit) \<times> event list" where
  "check_err m =
     (case m of
        (Some e, tr) \<Rightarrow> (Inl e, tr)
      | (None, tr) \<Rightarrow> (Inr (), tr))"

text \<open>Lines 546 to 549: the default name of a checkpoint.\<close>

definition Checkpoint_name :: "Client \<Rightarrow> task \<Rightarrow> CheckpointTaskInfo \<Rightarrow> CheckpointTaskInfo" where
  "Checkpoint_name cl t i =
     (if Name i = '''' then
        i\<lparr>Name := checkpointNameFormat (task_id t) (Now_Format cl checkpointDateFormat)\<rparr>
      else i)"

text \<open>
  Lines 535 to 537 and 550 to 557: the request, with the parent checkpoint and the
  marshalled options of the info when it has any.
\<close>

definition Checkpoint_request :: "Client \<Rightarrow> task \<Rightarrow> CheckpointTaskInfo
    \<Rightarrow> (error + CheckpointTaskRequest) \<times> event list" where
  "Checkpoint_request cl t i =
     (let request = \<lparr>Checkpoint_ContainerID = task_id t,
                     Checkpoint_ParentCheckpoint = ParentCheckpoint i,
                     Checkpoint_Options = None\<rparr>
      in case Options i of
           None \<Rightarrow> (Inr request, [])
         | Some v \<Rightarrow>
             (case Marshal_options cl v of
                Inl e \<Rightarrow> (Inl e, [Call_MarshalAnyToProto])
              | Inr a \<Rightarrow>
                  (Inr (request\<lparr>Checkpoint_Options := Some a\<rparr>), [Call_MarshalAnyToProto])))"

text \<open>
  Lines 559 to 570, and the \<^verbatim>\<open>defer t.Resume(ctx)\<close>: when the task was paused here,
  \<^verbatim>\<open>Resume\<close> is called after the rest of the function, whatever it returns, and its
  result is dropped.
\<close>

definition Checkpoint_paused :: "Client \<Rightarrow> task \<Rightarrow> Container \<Rightarrow> CheckpointTaskInfo
    \<Rightarrow> CheckpointTaskRequest \<Rightarrow> (error + images_Image) \<times> event list" where
  "Checkpoint_paused cl t cr i request =
     andThen (check (task_Status cl t))
       (\<lambda>status.
          if Status status \<noteq> Paused then
            andThen (check_err (Pause cl t))
              (\<lambda>u. case Checkpoint_capture cl t cr i request of
                      (r, tr) \<Rightarrow> (r, tr @ snd (Resume cl t)))
          else Checkpoint_capture cl t cr i request)"

text \<open>Lines 530 to 557: the container is looked up and the options are applied.\<close>

definition Checkpoint_leased :: "Client \<Rightarrow> task \<Rightarrow> CheckpointTaskOpts list
    \<Rightarrow> (error + images_Image) \<times> event list" where
  "Checkpoint_leased cl t opts =
     andThen (ContainerGet_reply cl (task_id t), [ContainerService_Get (task_id t)])
       (\<lambda>cr.
          andThen
            (run_checkpoint_opts opts
               \<lparr>Name = '''', ParentCheckpoint = '''', Options = None, runtime = Runtime_Name cr\<rparr>)
            (\<lambda>i0.
               andThen (Checkpoint_request cl t (Checkpoint_name cl t i0))
                 (\<lambda>request. Checkpoint_paused cl t cr (Checkpoint_name cl t i0) request)))"

text \<open>
  \<^verbatim>\<open>Checkpoint\<close>: the lease is taken first and its \<^verbatim>\<open>done\<close> function is deferred, so
  it runs last.
\<close>

definition Checkpoint :: "Client \<Rightarrow> task \<Rightarrow> CheckpointTaskOpts list
    \<Rightarrow> (error + images_Image) \<times> event list" where
  "Checkpoint cl t opts =
     (case WithLease cl of
        Some e \<Rightarrow> (Inl e, [Client_WithLease])
      | None \<Rightarrow>
          (case Checkpoint_leased cl t opts of
             (r, tr) \<Rightarrow> (r, [Client_WithLease] @ tr @ [Lease_done])))"

text \<open>
  Two kinds of calls: those that pause or resume a task, and those that serialise an index
  or write to the content store or to the image catalog.
\<close>

fun pauses_or_resumes :: "event \<Rightarrow> bool" where
  "pauses_or_resumes (TaskService_Pause cid) = True"
| "pauses_or_resumes (TaskService_Resume cid) = True"
| "pauses_or_resumes ev = False"

fun writes_store :: "event \<Rightarrow> bool" where
  "writes_store Call_json_Marshal = True"
| "writes_store (Store_Writer ref) = True"
| "writes_store Writer_Copy = True"
| "writes_store (Writer_Commit sz) = True"
| "writes_store Writer_Close = True"
| "writes_store (ImageService_Create im) = True"
| "writes_store ev = False"

subsection \<open>A sample session\<close>

text \<open>
  A concrete client, task and IO handle, on which the theorems below are instantiated.
  Every call of the sample client succeeds; a failing call is obtained by a record update.
  The status the \<^verbatim>\<open>Get\<close> call reports is a parameter.
\<close>

definition sample_ToNative :: "error \<Rightarrow> error" where
  "sample_ToNative e =
     (case e of
        GrpcStatus c d \<Rightarrow>
          if c = ''NotFound'' then Errorf (d @ '': '') (Sentinel ErrNotFound)
          else if c = ''Unavailable'' then Errorf (d @ '': '') (Sentinel ErrUnavailable)
          else Errorf (d @ '': '') (Sentinel ErrUnknown)
      | _ \<Rightarrow> e)"

definition sample_FromTimestamp :: "Timestamp option \<Rightarrow> Time" where
  "sample_FromTimestamp ts =
     (case ts of
        None \<Rightarrow> 0
      | Some s \<Rightarrow> (62135596800 + Seconds s) * 1000000000 + Nanos s)"

definition sample_Descriptor :: v1_Descriptor where
  "sample_Descriptor =
     \<lparr>Desc_MediaType = ''application/vnd.oci.image.manifest.v1+json'',
      Desc_Digest = ''sha256:6f4e'', Desc_Size = 1024, Desc_Platform = None,
      Desc_Annotations = Map.empty\<rparr>"

definition sample_Client :: "task_Status \<Rightarrow> Client" where
  "sample_Client s =
     \<lparr>ToNative = sample_ToNative,
      FromTimestamp = sample_FromTimestamp,
      RuntimePlugin_String = ''io.containerd.runtime.v1'',
      RuntimeRuncV2 = ''io.containerd.runc.v2'',
      GOOS = ''linux'',
      GOARCH = ''amd64'',
      Now_Format = (\<lambda>f. ''11-01-2026-18:49:00''),
      defaultRuntime = Inr ''io.containerd.runc.v2'',
      WithLease = None,
      Get_reply = (\<lambda>req. Inr \<lparr>Process_Status = s, Process_ExitStatus = 0,
                                  Process_ExitedAt = None\<rparr>),
      Delete_reply = (\<lambda>cid. Inr \<lparr>Delete_ExitStatus = 137,
                                    Delete_ExitedAt = Some \<lparr>Seconds = 5, Nanos = 7\<rparr>\<rparr>),
      Pause_reply = (\<lambda>cid. None),
      Resume_reply = (\<lambda>cid. None),
      Wait_reply = (\<lambda>cid. Inr \<lparr>Wait_ExitStatus = 3,
                                  Wait_ExitedAt = Some \<lparr>Seconds = 5, Nanos = 7\<rparr>\<rparr>),
      Exec_reply = (\<lambda>req. None),
      Checkpoint_reply = (\<lambda>req. Inr []),
      Metrics_reply = (\<lambda>filters. Inr None),
      Marshal_spec = (\<lambda>p. Inr \<lparr>TypeUrl = ''types.containerd.io/opencontainers/runtime-spec/1/Process'',
                                 Value = ''{}''\<rparr>),
      Marshal_options = (\<lambda>v. Inr \<lparr>TypeUrl = ''containerd.runc.v1.CheckpointOptions'',
                                    Value = ''{}''\<rparr>),
      ContainerGet_reply = (\<lambda>cid. Inr \<lparr>Runtime_Name = ''io.containerd.runc.v2'',
                                          Container_Image = ''docker.io/library/redis:latest'',
                                          SnapshotKey = ''redis-rw'',
                                          Snapshotter = ''overlayfs''\<rparr>),
      ImageGet_reply = (\<lambda>n. Inr \<lparr>Image_Name = n, Image_Labels = Map.empty,
                                   Image_Target = sample_Descriptor\<rparr>),
      ImageCreate_reply = (\<lambda>im. Inr im),
      CreateDiff_reply = (\<lambda>sid sn ref. Inr sample_Descriptor),
      json_Marshal = (\<lambda>ix. Inr ''{}''),
      Writer_reply = (\<lambda>ref. None),
      Copy_reply = (\<lambda>r. Inr (int (length r))),
      Commit_reply = (\<lambda>sz. None),
      Writer_Digest = (\<lambda>r. ''sha256:44136f'')\<rparr>"

definition sample_IO :: cio_IO where
  "sample_IO =
     \<lparr>Config = \<lparr>Terminal = False, Stdin = ''/run/in'', Stdout = ''/run/out'',
                 Stderr = ''/run/err''\<rparr>\<rparr>"

definition sample_task :: task where
  "sample_task = \<lparr>task_io = Some sample_IO, task_id = ''redis'', task_pid = 4242\<rparr>"

text \<open>A transport failure, and clients on which one call fails with it.\<close>

definition sample_unavailable :: error where
  "sample_unavailable = GrpcStatus ''Unavailable'' ''connection refused''"

definition failing_Get :: "Client \<Rightarrow> Client" where
  "failing_Get cl = cl\<lparr>Get_reply := (\<lambda>req. Inl sample_unavailable)\<rparr>"

definition failing_Delete :: "Client \<Rightarrow> Client" where
  "failing_Delete cl = cl\<lparr>Delete_reply := (\<lambda>cid. Inl sample_unavailable)\<rparr>"

text \<open>A client whose default runtime is the windows variant of the runtime plugin.\<close>

definition windows_Client :: "task_Status \<Rightarrow> Client" where
  "windows_Client s = (sample_Client s)\<lparr>defaultRuntime := Inr ''io.containerd.runtime.v1.windows''\<rparr>"

text \<open>A creator that hands out the sample IO handle, and a process specification.\<close>

definition sample_Creator :: cio_Creator where
  "sample_Creator eid = Inr sample_IO"

definition sample_spec :: "specs_Process option" where
  "sample_spec = Some \<lparr>Args = [''/bin/sh''], Cwd = ''/''\<rparr>"

definition failing_Marshal :: "Client \<Rightarrow> Client" where
  "failing_Marshal cl = cl\<lparr>Marshal_spec := (\<lambda>p. Inl (New ''type not registered''))\<rparr>"

definition failing_Exec :: "Client \<Rightarrow> Client" where
  "failing_Exec cl = cl\<lparr>Exec_reply := (\<lambda>req. Some sample_unavailable)\<rparr>"



text \<open>
  A checkpoint option that asks for the checkpoint to be written to a directory, and
  clients on which the image lookup or the runtime-state call fails.
\<close>

definition sample_ImagePath :: CheckpointTaskOpts where
  "sample_ImagePath i =
     (None, i\<lparr>Options := Some (CheckpointOptions
                 \<lparr>Exit = False, ImagePath = ''/var/lib/checkpoints/redis'', WorkPath = ''''\<rparr>)\<rparr>)"

definition failing_ImageGet :: "Client \<Rightarrow> Client" where
  "failing_ImageGet cl = cl\<lparr>ImageGet_reply := (\<lambda>n. Inl (Sentinel ErrNotFound))\<rparr>"

definition failing_Checkpoint :: "Client \<Rightarrow> Client" where
  "failing_Checkpoint cl = cl\<lparr>Checkpoint_reply := (\<lambda>req. Inl sample_unavailable)\<rparr>"

text \<open>
  The states that the goroutine of \<^verbatim>\<open>Wait\<close> and its caller can be in when the exit
  status to deliver is \<open>x\<close>: before the send, after the send (with the value buffered or
  received) and after the close.
\<close>

definition Wait_inv :: "'a \<Rightarrow> 'a sys \<Rightarrow> bool" where
  "Wait_inv x s =
     (cap (ch s) = 1 \<and> \<not> stuck s \<and>
      (todo s = [Send x, Close] \<and> \<not> closed (ch s) \<and> buf (ch s) = [] \<and> got s = []
       \<or> todo s = [Close] \<and> \<not> closed (ch s) \<and> buf (ch s) = [x] \<and> got s = []
       \<or> todo s = [Close] \<and> \<not> closed (ch s) \<and> buf (ch s) = [] \<and> got s = [x]
       \<or> todo s = [] \<and> closed (ch s) \<and> buf (ch s) = [x] \<and> got s = []
       \<or> todo s = [] \<and> closed (ch s) \<and> buf (ch s) = [] \<and> got s = [x]))"

definition failing_Wait :: "Client \<Rightarrow> Client" where
  "failing_Wait cl = cl\<lparr>Wait_reply := (\<lambda>cid. Inl sample_unavailable)\<rparr>"

section \<open>Properties\<close>

subsection \<open>Auxiliary facts\<close>

lemmas sample_defs = sample_Client_def sample_task_def sample_IO_def sample_ToNative_def
  sample_FromTimestamp_def sample_unavailable_def

lemmas status_defs = Running_def Created_def Stopped_def Paused_def Pausing_def Unknown_def

lemma ToLower_enum:
  "ToLower ''UNKNOWN'' = ''unknown''"
  "ToLower ''CREATED'' = ''created''"
  "ToLower ''RUNNING'' = ''running''"
  "ToLower ''STOPPED'' = ''stopped''"
  "ToLower ''PAUSED'' = ''paused''"
  "ToLower ''PAUSING'' = ''pausing''"
  by (simp_all add: ToLower_def lower_char_def char_of_def bit_0)

lemma task_Status_trace:
  "snd (task_Status cl t) = [TaskService_Get \<lparr>Get_ContainerID = task_id t, Get_ExecID = ''''\<rparr>]"
  by (simp add: task_Status_def Let_def split: sum.splits)

lemma task_Status_sample:
  "task_Status (sample_Client s) sample_task =
     ((\<lparr>Status = ToLower (task_Status_String s), ExitStatus = 0, ExitTime = 0\<rparr>, None),
      [TaskService_Get \<lparr>Get_ContainerID = ''redis'', Get_ExecID = ''''\<rparr>])"
  by (simp add: task_Status_def sample_defs)

lemma run_delete_opts_events:
  "set (snd (snd (run_delete_opts os u))) \<subseteq> {Call_DeleteOpt}"
proof (induction os arbitrary: u)
  case Nil
  show ?case by simp
next
  case (Cons opt os)
  show ?case
    using Cons [of "snd (opt u)"] by (auto split: prod.splits option.splits)
qed

lemma Delete_past_status:
  assumes "run_delete_opts opts t0 = (None, t, tr0)"
    and "fst (task_Status cl t) = (st, serr)"
    and "\<forall>e. serr = Some e \<longrightarrow> \<not> IsNotFound e"
  shows "Delete cl t0 opts =
     (case defaultRuntime cl of
        Inl e \<Rightarrow>
          (Inl (Errorf ''failed to get default runtime: '' e),
           tr0 @ snd (task_Status cl t) @ [Call_defaultRuntime])
      | Inr rt \<Rightarrow>
          if Delete_switch cl t rt st then
            (fst (Delete_call cl t rt),
             tr0 @ snd (task_Status cl t) @ [Call_defaultRuntime] @ snd (Delete_call cl t rt))
          else
            (Inl (Errorf (''task must be stopped before deletion: '' @ Status st @ '': '')
                    (Sentinel ErrFailedPrecondition)),
             tr0 @ snd (task_Status cl t) @ [Call_defaultRuntime]))"
proof (cases "task_Status cl t")
  case (Pair a tr1)
  with assms(2) have ts: "task_Status cl t = ((st, serr), tr1)" by simp
  show ?thesis
  proof (cases serr)
    case None
    with ts assms(1) show ?thesis
      by (simp add: Delete_def split: sum.splits prod.splits)
  next
    case (Some e)
    with assms(3) have "\<not> IsNotFound e" by simp
    with Some ts assms(1) show ?thesis
      by (simp add: Delete_def split: sum.splits prod.splits)
  qed
qed

subsection \<open>Delete\<close>

text \<open>
  Claim C1, amended. Once the delete options have run without error and \<^verbatim>\<open>Status\<close> has
  reported \<open>running\<close>, \<open>paused\<close> or \<open>pausing\<close>, \<^verbatim>\<open>Delete\<close> never issues the delete call.
  When the default runtime resolves, it returns the failed-precondition error whose message
  carries the reported status. When the resolution fails, it returns that failure wrapped
  as \<open>failed to get default runtime\<close>.
\<close>

theorem Delete_rejects_active:
  assumes "run_delete_opts opts t0 = (None, t, tr0)"
    and "fst (task_Status cl t) = (st, None)"
    and "Status st = Running \<or> Status st = Paused \<or> Status st = Pausing"
  shows "(\<forall>cid. TaskService_Delete cid \<notin> set (snd (Delete cl t0 opts)))
       \<and> (\<forall>rt. defaultRuntime cl = Inr rt \<longrightarrow>
            fst (Delete cl t0 opts) =
              Inl (Errorf (''task must be stopped before deletion: '' @ Status st @ '': '')
                     (Sentinel ErrFailedPrecondition))
            \<and> IsFailedPrecondition
                (Errorf (''task must be stopped before deletion: '' @ Status st @ '': '')
                   (Sentinel ErrFailedPrecondition))
            \<and> Error (Errorf (''task must be stopped before deletion: '' @ Status st @ '': '')
                       (Sentinel ErrFailedPrecondition))
                = ''task must be stopped before deletion: '' @ Status st
                  @ '': failed precondition'')
       \<and> (\<forall>e. defaultRuntime cl = Inl e \<longrightarrow>
            fst (Delete cl t0 opts) = Inl (Errorf ''failed to get default runtime: '' e))"
proof -
  have sw: "\<And>rt. \<not> Delete_switch cl t rt st"
    using assms(3) by (auto simp: Delete_switch_def status_defs)
  have D: "Delete cl t0 opts =
     (case defaultRuntime cl of
        Inl e \<Rightarrow>
          (Inl (Errorf ''failed to get default runtime: '' e),
           tr0 @ snd (task_Status cl t) @ [Call_defaultRuntime])
      | Inr rt \<Rightarrow>
            (Inl (Errorf (''task must be stopped before deletion: '' @ Status st @ '': '')
                    (Sentinel ErrFailedPrecondition)),
             tr0 @ snd (task_Status cl t) @ [Call_defaultRuntime]))"
    using Delete_past_status [OF assms(1) assms(2)] sw by (simp split: sum.splits)
  have "\<And>cid. TaskService_Delete cid \<notin> set tr0"
    using run_delete_opts_events [of opts t0] assms(1) by auto
  then show ?thesis
    by (simp add: D task_Status_trace IsFailedPrecondition_def split: sum.splits)
qed

text \<open>Witness for C1: the sample task, reported running, on the sample client.\<close>

theorem Delete_rejects_active_witness:
  "fst (Delete (sample_Client RUNNING) sample_task []) =
     Inl (Errorf ''task must be stopped before deletion: running: ''
            (Sentinel ErrFailedPrecondition))
   \<and> (\<forall>cid. TaskService_Delete cid \<notin> set (snd (Delete (sample_Client RUNNING) sample_task [])))"
proof -
  have st: "fst (task_Status (sample_Client RUNNING) sample_task) =
      (\<lparr>Status = ''running'', ExitStatus = 0, ExitTime = 0\<rparr>, None)"
    by (simp add: task_Status_sample ToLower_enum)
  have hooks: "run_delete_opts [] sample_task = (None, sample_task, [])" by simp
  from Delete_rejects_active [OF hooks st] show ?thesis
    by (simp add: sample_Client_def Running_def)
qed

text \<open>
  Claim C1 as stated fails where the default runtime does not resolve: the sample task is
  reported running, and \<^verbatim>\<open>Delete\<close> returns the wrapped resolution failure, which is not a
  failed-precondition error and does not carry the status.
\<close>

theorem Delete_running_runtime_unresolved:
  "fst (task_Status ((sample_Client RUNNING)\<lparr>defaultRuntime := Inl (Sentinel ErrUnavailable)\<rparr>)
          sample_task) = (\<lparr>Status = ''running'', ExitStatus = 0, ExitTime = 0\<rparr>, None)
   \<and> fst (Delete ((sample_Client RUNNING)\<lparr>defaultRuntime := Inl (Sentinel ErrUnavailable)\<rparr>)
            sample_task []) =
       Inl (Errorf ''failed to get default runtime: '' (Sentinel ErrUnavailable))
   \<and> \<not> IsFailedPrecondition
         (Errorf ''failed to get default runtime: '' (Sentinel ErrUnavailable))"
  by (simp add: Delete_def task_Status_def sample_defs ToLower_enum
      IsFailedPrecondition_def IsNotFound_def)

lemma Delete_call_has_rpc:
  "TaskService_Delete (task_id t) \<in> set (snd (Delete_call cl t rt))"
  by (simp add: Delete_call_def Let_def split: sum.splits option.splits)

text \<open>
  Claim C2. Once the delete options have run without error, \<^verbatim>\<open>Status\<close> has reported
  \<open>created\<close> and the default runtime has resolved to \<open>rt\<close>, \<^verbatim>\<open>Delete\<close> issues the delete
  call exactly when the pid held by the task is 0 or \<open>rt\<close> is the windows variant of the
  runtime plugin. It then returns what the delete call gives; otherwise it returns the
  failed-precondition error for \<open>created\<close>.
\<close>

theorem Delete_created:
  assumes "run_delete_opts opts t0 = (None, t, tr0)"
    and "fst (task_Status cl t) = (st, None)"
    and "Status st = Created"
    and "defaultRuntime cl = Inr rt"
  shows "((\<exists>cid. TaskService_Delete cid \<in> set (snd (Delete cl t0 opts)))
          = (task_pid t = 0 \<or> rt = RuntimePlugin_String cl @ ''.windows''))
       \<and> (task_pid t = 0 \<or> rt = RuntimePlugin_String cl @ ''.windows'' \<longrightarrow>
            fst (Delete cl t0 opts) = fst (Delete_call cl t rt))
       \<and> (\<not> (task_pid t = 0 \<or> rt = RuntimePlugin_String cl @ ''.windows'') \<longrightarrow>
            fst (Delete cl t0 opts) =
              Inl (Errorf ''task must be stopped before deletion: created: ''
                     (Sentinel ErrFailedPrecondition)))"
proof -
  have sw: "Delete_switch cl t rt st
      = (task_pid t = 0 \<or> rt = RuntimePlugin_String cl @ ''.windows'')"
    using assms(3) by (auto simp: Delete_switch_def status_defs)
  have quiet: "\<And>cid. TaskService_Delete cid \<notin> set tr0"
    using run_delete_opts_events [of opts t0] assms(1) by auto
  have D: "Delete cl t0 opts =
     (if task_pid t = 0 \<or> rt = RuntimePlugin_String cl @ ''.windows'' then
        (fst (Delete_call cl t rt),
         tr0 @ snd (task_Status cl t) @ [Call_defaultRuntime] @ snd (Delete_call cl t rt))
      else
        (Inl (Errorf (''task must be stopped before deletion: '' @ Status st @ '': '')
                (Sentinel ErrFailedPrecondition)),
         tr0 @ snd (task_Status cl t) @ [Call_defaultRuntime]))"
    using Delete_past_status [OF assms(1) assms(2)] sw assms(4) by simp
  show ?thesis
  proof (cases "task_pid t = 0 \<or> rt = RuntimePlugin_String cl @ ''.windows''")
    case True
    then have "TaskService_Delete (task_id t) \<in> set (snd (Delete cl t0 opts))"
      using D Delete_call_has_rpc [of t cl rt] by simp
    with True D show ?thesis by auto
  next
    case False
    with D quiet assms(3) show ?thesis
      by (simp add: task_Status_trace Created_def)
  qed
qed

text \<open>
  Witness for C2: on the runc runtime, the sample task with pid 4242 is rejected and the
  same task with pid 0 is deleted.
\<close>

theorem Delete_created_witness:
  "fst (Delete (sample_Client CREATED) sample_task []) =
     Inl (Errorf ''task must be stopped before deletion: created: ''
            (Sentinel ErrFailedPrecondition))
   \<and> fst (Delete (sample_Client CREATED) (sample_task\<lparr>task_pid := 0\<rparr>) []) =
       Inr \<lparr>code = 137, exitedAt = 62135596805000000007, err = None\<rparr>"
proof -
  have st: "fst (task_Status (sample_Client CREATED) sample_task) =
      (\<lparr>Status = Created, ExitStatus = 0, ExitTime = 0\<rparr>, None)"
    by (simp add: task_Status_sample ToLower_enum Created_def)
  have st0: "fst (task_Status (sample_Client CREATED) (sample_task\<lparr>task_pid := 0\<rparr>)) =
      (\<lparr>Status = Created, ExitStatus = 0, ExitTime = 0\<rparr>, None)"
    by (simp add: task_Status_def sample_defs ToLower_enum Created_def)
  have rt: "defaultRuntime (sample_Client CREATED) = Inr ''io.containerd.runc.v2''"
    by (simp add: sample_Client_def)
  have hooks: "run_delete_opts [] sample_task = (None, sample_task, [])" by simp
  have hooks0: "run_delete_opts [] (sample_task\<lparr>task_pid := 0\<rparr>)
      = (None, sample_task\<lparr>task_pid := 0\<rparr>, [])" by simp
  from Delete_created [OF hooks st _ rt] Delete_created [OF hooks0 st0 _ rt] show ?thesis
    by (simp add: sample_defs Delete_call_def)
qed

text \<open>
  Claim C3, amended. Let the delete options have run without error, let the status held
  after the \<^verbatim>\<open>Status\<close> call be \<open>stopped\<close>, \<open>unknown\<close> or empty (the call did not fail with
  not-found), and let the default runtime resolve to \<open>rt\<close>. If the delete call succeeds,
  \<^verbatim>\<open>Delete\<close> returns the exit status and exit time of its reply. On every runtime other
  than the windows variant the IO handle is cancelled and waited for before the delete
  call and closed only after the call has succeeded; when the call fails the handle is
  not closed. On the windows variant the handle is closed before the delete call is made.
\<close>

theorem Delete_terminal:
  assumes "run_delete_opts opts t0 = (None, t, tr0)"
    and "fst (task_Status cl t) = (st, serr)"
    and "\<forall>e. serr = Some e \<longrightarrow> \<not> IsNotFound e"
    and "Status st = Stopped \<or> Status st = Unknown \<or> Status st = ''''"
    and "defaultRuntime cl = Inr rt"
  shows "(\<forall>r. Delete_reply cl (task_id t) = Inr r \<longrightarrow>
            fst (Delete cl t0 opts) =
              Inr \<lparr>code = Delete_ExitStatus r,
                    exitedAt = FromTimestamp cl (Delete_ExitedAt r),
                    err = None\<rparr>)
       \<and> (rt \<noteq> RuntimePlugin_String cl @ ''.windows'' \<longrightarrow>
            (\<forall>r. Delete_reply cl (task_id t) = Inr r \<longrightarrow>
               snd (Delete cl t0 opts) =
                 tr0
                 @ [TaskService_Get \<lparr>Get_ContainerID = task_id t, Get_ExecID = ''''\<rparr>,
                    Call_defaultRuntime]
                 @ (case task_io t of None \<Rightarrow> [] | Some i \<Rightarrow> [IO_Cancel i, IO_Wait i])
                 @ [TaskService_Delete (task_id t)]
                 @ (case task_io t of None \<Rightarrow> [] | Some i \<Rightarrow> [IO_Close i]))
          \<and> (\<forall>e. Delete_reply cl (task_id t) = Inl e \<longrightarrow>
               fst (Delete cl t0 opts) = Inl (ToNative cl e)
               \<and> (\<forall>i. IO_Close i \<notin> set (snd (Delete cl t0 opts)))))
       \<and> (rt = RuntimePlugin_String cl @ ''.windows'' \<longrightarrow>
            (\<forall>i. task_io t = Some i \<longrightarrow>
               (\<exists>post. snd (Delete cl t0 opts) =
                  tr0
                  @ [TaskService_Get \<lparr>Get_ContainerID = task_id t, Get_ExecID = ''''\<rparr>,
                     Call_defaultRuntime, IO_Close i, IO_Cancel i, IO_Wait i,
                     TaskService_Delete (task_id t)]
                  @ post)))"
proof -
  have sw: "Delete_switch cl t rt st"
    using assms(4) by (auto simp: Delete_switch_def)
  have quiet: "\<And>i. IO_Close i \<notin> set tr0"
    using run_delete_opts_events [of opts t0] assms(1) by auto
  have D: "Delete cl t0 opts =
        (fst (Delete_call cl t rt),
         tr0 @ snd (task_Status cl t) @ [Call_defaultRuntime] @ snd (Delete_call cl t rt))"
    using Delete_past_status [OF assms(1) assms(2) assms(3)] sw assms(5) by simp
  have ok: "\<forall>r. Delete_reply cl (task_id t) = Inr r \<longrightarrow>
            fst (Delete cl t0 opts) =
              Inr \<lparr>code = Delete_ExitStatus r,
                    exitedAt = FromTimestamp cl (Delete_ExitedAt r),
                    err = None\<rparr>"
    by (simp add: D Delete_call_def Let_def)
  have other: "rt \<noteq> RuntimePlugin_String cl @ ''.windows'' \<longrightarrow>
            (\<forall>r. Delete_reply cl (task_id t) = Inr r \<longrightarrow>
               snd (Delete cl t0 opts) =
                 tr0
                 @ [TaskService_Get \<lparr>Get_ContainerID = task_id t, Get_ExecID = ''''\<rparr>,
                    Call_defaultRuntime]
                 @ (case task_io t of None \<Rightarrow> [] | Some i \<Rightarrow> [IO_Cancel i, IO_Wait i])
                 @ [TaskService_Delete (task_id t)]
                 @ (case task_io t of None \<Rightarrow> [] | Some i \<Rightarrow> [IO_Close i]))
          \<and> (\<forall>e. Delete_reply cl (task_id t) = Inl e \<longrightarrow>
               fst (Delete cl t0 opts) = Inl (ToNative cl e)
               \<and> (\<forall>i. IO_Close i \<notin> set (snd (Delete cl t0 opts))))"
    using quiet
    by (simp add: D Delete_call_def Let_def task_Status_trace split: option.splits)
  have win: "rt = RuntimePlugin_String cl @ ''.windows'' \<longrightarrow>
            (\<forall>i. task_io t = Some i \<longrightarrow>
               (\<exists>post. snd (Delete cl t0 opts) =
                  tr0
                  @ [TaskService_Get \<lparr>Get_ContainerID = task_id t, Get_ExecID = ''''\<rparr>,
                     Call_defaultRuntime, IO_Close i, IO_Cancel i, IO_Wait i,
                     TaskService_Delete (task_id t)]
                  @ post))"
    by (simp add: D Delete_call_def Let_def task_Status_trace split: sum.splits)
  from ok other win show ?thesis by blast
qed

text \<open>
  Witness for C3: a stopped sample task on the runc runtime, with a delete call that
  succeeds and with one that fails.
\<close>

theorem Delete_terminal_witness:
  "Delete (sample_Client STOPPED) sample_task [] =
     (Inr \<lparr>code = 137, exitedAt = 62135596805000000007, err = None\<rparr>,
      [TaskService_Get \<lparr>Get_ContainerID = ''redis'', Get_ExecID = ''''\<rparr>, Call_defaultRuntime,
       IO_Cancel sample_IO, IO_Wait sample_IO, TaskService_Delete ''redis'',
       IO_Close sample_IO])
   \<and> fst (Delete (failing_Delete (sample_Client STOPPED)) sample_task []) =
       Inl (Errorf ''connection refused: '' (Sentinel ErrUnavailable))
   \<and> (\<forall>i. IO_Close i \<notin> set (snd (Delete (failing_Delete (sample_Client STOPPED)) sample_task [])))"
proof -
  have st: "fst (task_Status (sample_Client STOPPED) sample_task) =
      (\<lparr>Status = Stopped, ExitStatus = 0, ExitTime = 0\<rparr>, None)"
    by (simp add: task_Status_sample ToLower_enum Stopped_def)
  have stf: "fst (task_Status (failing_Delete (sample_Client STOPPED)) sample_task) =
      (\<lparr>Status = Stopped, ExitStatus = 0, ExitTime = 0\<rparr>, None)"
    by (simp add: task_Status_def sample_defs failing_Delete_def ToLower_enum Stopped_def)
  have rt: "defaultRuntime (sample_Client STOPPED) = Inr ''io.containerd.runc.v2''"
    "defaultRuntime (failing_Delete (sample_Client STOPPED)) = Inr ''io.containerd.runc.v2''"
    by (simp_all add: sample_defs failing_Delete_def)
  have hooks: "run_delete_opts [] sample_task = (None, sample_task, [])" by simp
  from Delete_terminal [OF hooks st _ _ rt(1)] Delete_terminal [OF hooks stf _ _ rt(2)]
  show ?thesis
    by (simp add: sample_defs failing_Delete_def prod_eq_iff)
qed

text \<open>
  Claim C3 as stated fails on the windows variant of the runtime, whose name is
  \<^verbatim>\<open>plugins.RuntimePlugin.String()\<close>, that is \<open>io.containerd.runtime.v1\<close>, followed by
  \<open>.windows\<close>: the sample task is reported stopped, its IO handle is closed before the
  delete call, and the delete call fails.
\<close>

theorem Delete_windows_closes_before_rpc:
  "RuntimePlugin_String (failing_Delete (windows_Client STOPPED)) = ''io.containerd.runtime.v1''
   \<and> defaultRuntime (failing_Delete (windows_Client STOPPED)) =
       Inr ''io.containerd.runtime.v1.windows''
   \<and> fst (task_Status (failing_Delete (windows_Client STOPPED)) sample_task) =
     (\<lparr>Status = ''stopped'', ExitStatus = 0, ExitTime = 0\<rparr>, None)
   \<and> Delete (failing_Delete (windows_Client STOPPED)) sample_task [] =
      (Inl (Errorf ''connection refused: '' (Sentinel ErrUnavailable)),
       [TaskService_Get \<lparr>Get_ContainerID = ''redis'', Get_ExecID = ''''\<rparr>, Call_defaultRuntime,
        IO_Close sample_IO, IO_Cancel sample_IO, IO_Wait sample_IO,
        TaskService_Delete ''redis''])"
  by (simp add: Delete_def Delete_switch_def Delete_call_def task_Status_def sample_defs
      failing_Delete_def windows_Client_def
      ToLower_enum status_defs IsNotFound_def)

text \<open>
  Claim C4, amended. Let the delete options have run without error and let the \<^verbatim>\<open>Get\<close>
  call of \<^verbatim>\<open>Status\<close> fail with an error that does not translate to not-found. Then
  \<^verbatim>\<open>Status\<close> returns the zero status with that error, the status text is empty, and the
  switch of \<^verbatim>\<open>Delete\<close> lets it pass on every runtime. When the default runtime resolves,
  the delete call is issued and its outcome is what \<^verbatim>\<open>Delete\<close> returns. When the
  resolution fails, \<^verbatim>\<open>Delete\<close> returns that failure wrapped as
  \<open>failed to get default runtime\<close> and issues no delete call. In both cases the result
  and the calls made are those of the same \<^verbatim>\<open>Delete\<close> on a client whose \<^verbatim>\<open>Get\<close> call
  reports a stopped process.
\<close>

theorem Delete_status_error_ignored:
  assumes "run_delete_opts opts t0 = (None, t, tr0)"
    and "Get_reply cl \<lparr>Get_ContainerID = task_id t, Get_ExecID = ''''\<rparr> = Inl e"
    and "\<not> IsNotFound (ToNative cl e)"
  shows "fst (task_Status cl t) = (zero_Status, Some (ToNative cl e))
       \<and> Status zero_Status = ''''
       \<and> (\<forall>rt. Delete_switch cl t rt zero_Status)
       \<and> (\<forall>rt. defaultRuntime cl = Inr rt \<longrightarrow>
            fst (Delete cl t0 opts) = fst (Delete_call cl t rt)
            \<and> TaskService_Delete (task_id t) \<in> set (snd (Delete cl t0 opts)))
       \<and> (\<forall>e'. defaultRuntime cl = Inl e' \<longrightarrow>
            fst (Delete cl t0 opts) = Inl (Errorf ''failed to get default runtime: '' e')
            \<and> (\<forall>cid. TaskService_Delete cid \<notin> set (snd (Delete cl t0 opts))))
       \<and> (\<forall>r. Process_Status r = STOPPED \<longrightarrow>
            Delete cl t0 opts = Delete (cl\<lparr>Get_reply := (\<lambda>req. Inr r)\<rparr>) t0 opts)"
proof -
  have st: "fst (task_Status cl t) = (zero_Status, Some (ToNative cl e))"
    using assms(2) by (simp add: task_Status_def)
  have z: "Status zero_Status = ''''" by (simp add: zero_Status_def)
  have sw: "\<And>rt. Delete_switch cl t rt zero_Status"
    by (simp add: Delete_switch_def z)
  have D: "Delete cl t0 opts =
     (case defaultRuntime cl of
        Inl e \<Rightarrow>
          (Inl (Errorf ''failed to get default runtime: '' e),
           tr0 @ snd (task_Status cl t) @ [Call_defaultRuntime])
      | Inr rt \<Rightarrow>
            (fst (Delete_call cl t rt),
             tr0 @ snd (task_Status cl t) @ [Call_defaultRuntime] @ snd (Delete_call cl t rt)))"
    using Delete_past_status [OF assms(1) st] assms(3) sw by (simp split: sum.splits)
  have issued: "\<forall>rt. defaultRuntime cl = Inr rt \<longrightarrow>
            fst (Delete cl t0 opts) = fst (Delete_call cl t rt)
            \<and> TaskService_Delete (task_id t) \<in> set (snd (Delete cl t0 opts))"
    using Delete_call_has_rpc [of t cl] by (simp add: D)
  have same: "Delete cl t0 opts = Delete (cl\<lparr>Get_reply := (\<lambda>req. Inr r)\<rparr>) t0 opts"
    if r: "Process_Status r = STOPPED" for r
  proof -
    let ?cl = "cl\<lparr>Get_reply := (\<lambda>req. Inr r)\<rparr>"
    have st': "fst (task_Status ?cl t) =
        (\<lparr>Status = Stopped, ExitStatus = Process_ExitStatus r,
          ExitTime = FromTimestamp cl (Process_ExitedAt r)\<rparr>, None)"
      by (simp add: task_Status_def r ToLower_enum Stopped_def)
    have sw': "\<And>rt. Delete_switch ?cl t rt
        \<lparr>Status = Stopped, ExitStatus = Process_ExitStatus r,
          ExitTime = FromTimestamp cl (Process_ExitedAt r)\<rparr>"
      by (simp add: Delete_switch_def)
    have call: "\<And>rt. Delete_call ?cl t rt = Delete_call cl t rt"
      by (simp add: Delete_call_def Let_def split: sum.splits option.splits)
    have "Delete ?cl t0 opts =
     (case defaultRuntime cl of
        Inl e \<Rightarrow>
          (Inl (Errorf ''failed to get default runtime: '' e),
           tr0 @ snd (task_Status ?cl t) @ [Call_defaultRuntime])
      | Inr rt \<Rightarrow>
            (fst (Delete_call cl t rt),
             tr0 @ snd (task_Status ?cl t) @ [Call_defaultRuntime] @ snd (Delete_call cl t rt)))"
      using Delete_past_status [OF assms(1) st'] sw' call by (simp split: sum.splits)
    then show ?thesis
      by (simp add: D task_Status_trace split: sum.splits)
  qed
  have quiet: "\<And>cid. TaskService_Delete cid \<notin> set tr0"
    using run_delete_opts_events [of opts t0] assms(1) by auto
  have unresolved: "\<forall>e'. defaultRuntime cl = Inl e' \<longrightarrow>
            fst (Delete cl t0 opts) = Inl (Errorf ''failed to get default runtime: '' e')
            \<and> (\<forall>cid. TaskService_Delete cid \<notin> set (snd (Delete cl t0 opts)))"
    using quiet by (simp add: D task_Status_trace)
  from st z sw issued unresolved same show ?thesis by blast
qed

text \<open>
  Witness for C4: the \<^verbatim>\<open>Get\<close> call is refused by the transport, and the sample task is
  deleted.
\<close>

theorem Delete_status_error_ignored_witness:
  "Delete (failing_Get (sample_Client RUNNING)) sample_task [] =
     (Inr \<lparr>code = 137, exitedAt = 62135596805000000007, err = None\<rparr>,
      [TaskService_Get \<lparr>Get_ContainerID = ''redis'', Get_ExecID = ''''\<rparr>, Call_defaultRuntime,
       IO_Cancel sample_IO, IO_Wait sample_IO, TaskService_Delete ''redis'',
       IO_Close sample_IO])"
proof -
  have get: "Get_reply (failing_Get (sample_Client RUNNING))
      \<lparr>Get_ContainerID = task_id sample_task, Get_ExecID = ''''\<rparr> = Inl sample_unavailable"
    by (simp add: failing_Get_def)
  have nf: "\<not> IsNotFound (ToNative (failing_Get (sample_Client RUNNING)) sample_unavailable)"
    by (simp add: sample_defs failing_Get_def IsNotFound_def)
  have hooks: "run_delete_opts [] sample_task = (None, sample_task, [])" by simp
  have same: "Delete (failing_Get (sample_Client RUNNING)) sample_task [] =
      Delete (sample_Client STOPPED) sample_task []"
    using Delete_status_error_ignored [OF hooks get nf]
    by (simp add: sample_defs failing_Get_def)
  show ?thesis
    unfolding same
    by (simp add: Delete_def Delete_switch_def Delete_call_def task_Status_def sample_defs
        failing_Get_def
        ToLower_enum status_defs)
qed

text \<open>
  Claim C4 as stated fails where the default runtime does not resolve: the \<^verbatim>\<open>Get\<close> call
  is refused by the transport with an error that is not a not-found error, and \<^verbatim>\<open>Delete\<close>
  returns the wrapped resolution failure after two calls, neither of them the delete call.
\<close>

theorem Delete_status_error_runtime_unresolved:
  "Get_reply ((failing_Get (sample_Client RUNNING))\<lparr>defaultRuntime := Inl (Sentinel ErrUnavailable)\<rparr>)
     \<lparr>Get_ContainerID = task_id sample_task, Get_ExecID = ''''\<rparr> = Inl sample_unavailable
   \<and> \<not> IsNotFound
         (ToNative ((failing_Get (sample_Client RUNNING))\<lparr>defaultRuntime := Inl (Sentinel ErrUnavailable)\<rparr>)
            sample_unavailable)
   \<and> Delete ((failing_Get (sample_Client RUNNING))\<lparr>defaultRuntime := Inl (Sentinel ErrUnavailable)\<rparr>)
        sample_task [] =
       (Inl (Errorf ''failed to get default runtime: '' (Sentinel ErrUnavailable)),
        [TaskService_Get \<lparr>Get_ContainerID = ''redis'', Get_ExecID = ''''\<rparr>, Call_defaultRuntime])"
  by (simp add: Delete_def task_Status_def sample_defs failing_Get_def IsNotFound_def)

subsection \<open>Exec\<close>

text \<open>
  Claim C8. \<^verbatim>\<open>Exec\<close> with an empty exec id returns the invalid-argument error and makes
  no call at all: the IO creator is not invoked, whatever it is.
\<close>

theorem Exec_empty_id:
  "Exec cl t '''' spec ioCreate =
     (Inl (Errorf ''exec id must not be empty: '' (Sentinel ErrInvalidArgument)), [])
   \<and> IsInvalidArgument (Errorf ''exec id must not be empty: '' (Sentinel ErrInvalidArgument))"
  by (simp add: Exec_def IsInvalidArgument_def)

text \<open>
  Claim C9, amended. Let the exec id be non-empty and the creator have returned the handle
  \<open>i\<close>. When marshalling the specification fails, \<^verbatim>\<open>Exec\<close> returns that error after the
  deferred function has cancelled and closed \<open>i\<close>; the handle is not waited for. When the
  exec call fails, \<open>i\<close> is cancelled, waited for and closed, then cancelled and closed once
  more by the deferred function, and the translated error is returned.
\<close>

theorem Exec_failure_cleanup:
  assumes "eid \<noteq> ''''"
    and "ioCreate eid = Inr i"
  shows "(\<forall>e. Marshal_spec cl spec = Inl e \<longrightarrow>
            Exec cl t eid spec ioCreate =
              (Inl e, [IO_Create eid, Call_MarshalAnyToProto, IO_Cancel i, IO_Close i]))
       \<and> (\<forall>pSpec e.
            Marshal_spec cl spec = Inr pSpec \<longrightarrow>
            Exec_reply cl
              \<lparr>Exec_ContainerID = task_id t, Exec_ExecID = eid,
               Exec_Terminal = Terminal (Config i), Exec_Stdin = Stdin (Config i),
               Exec_Stdout = Stdout (Config i), Exec_Stderr = Stderr (Config i),
               Exec_Spec = pSpec\<rparr> = Some e \<longrightarrow>
            Exec cl t eid spec ioCreate =
              (Inl (ToNative cl e),
               [IO_Create eid, Call_MarshalAnyToProto,
                TaskService_Exec
                  \<lparr>Exec_ContainerID = task_id t, Exec_ExecID = eid,
                   Exec_Terminal = Terminal (Config i), Exec_Stdin = Stdin (Config i),
                   Exec_Stdout = Stdout (Config i), Exec_Stderr = Stderr (Config i),
                   Exec_Spec = pSpec\<rparr>,
                IO_Cancel i, IO_Wait i, IO_Close i, IO_Cancel i, IO_Close i]))"
  using assms by (simp add: Exec_def Let_def)

text \<open>Witness for C9: the exec call is refused by the transport.\<close>

theorem Exec_failure_cleanup_witness:
  "Exec (failing_Exec (sample_Client RUNNING)) sample_task ''exec-1'' sample_spec sample_Creator =
     (Inl (Errorf ''connection refused: '' (Sentinel ErrUnavailable)),
      [IO_Create ''exec-1'', Call_MarshalAnyToProto,
       TaskService_Exec
         \<lparr>Exec_ContainerID = ''redis'', Exec_ExecID = ''exec-1'', Exec_Terminal = False,
          Exec_Stdin = ''/run/in'', Exec_Stdout = ''/run/out'', Exec_Stderr = ''/run/err'',
          Exec_Spec = \<lparr>TypeUrl = ''types.containerd.io/opencontainers/runtime-spec/1/Process'',
                       Value = ''{}''\<rparr>\<rparr>,
       IO_Cancel sample_IO, IO_Wait sample_IO, IO_Close sample_IO,
       IO_Cancel sample_IO, IO_Close sample_IO])"
proof -
  have id: "''exec-1'' \<noteq> ''''" by simp
  have io: "sample_Creator ''exec-1'' = Inr sample_IO" by (simp add: sample_Creator_def)
  from Exec_failure_cleanup [where eid = "''exec-1''" and ioCreate = sample_Creator
      and i = sample_IO and cl = "failing_Exec (sample_Client RUNNING)" and spec = sample_spec
      and t = sample_task, OF id io]
  show ?thesis
    by (simp add: sample_defs failing_Exec_def sample_Creator_def sample_spec_def)
qed

text \<open>
  Claim C9 as stated fails when marshalling the specification fails: the creator has
  returned the sample handle, \<^verbatim>\<open>Exec\<close> fails, and the handle is cancelled and closed
  without \<^verbatim>\<open>Wait\<close> being called on it.
\<close>

theorem Exec_marshal_failure_not_drained:
  "sample_Creator ''exec-1'' = Inr sample_IO
   \<and> Exec (failing_Marshal (sample_Client RUNNING)) sample_task ''exec-1'' sample_spec
       sample_Creator =
      (Inl (New ''type not registered''),
       [IO_Create ''exec-1'', Call_MarshalAnyToProto, IO_Cancel sample_IO, IO_Close sample_IO])
   \<and> IO_Wait sample_IO \<notin> set (snd (Exec (failing_Marshal (sample_Client RUNNING)) sample_task
        ''exec-1'' sample_spec sample_Creator))"
  by (simp add: Exec_def sample_defs failing_Marshal_def sample_Creator_def sample_spec_def)

subsection \<open>Metrics\<close>




subsection \<open>Wait\<close>

lemma Wait_inv_Goroutine:
  assumes "Wait_inv x s"
  shows "Wait_inv x (sys_step s Goroutine)"
  using assms unfolding Wait_inv_def
  by (elim conjE disjE) simp_all

lemma Wait_inv_Caller:
  assumes "Wait_inv x s"
  shows "Wait_inv x (sys_step s Caller)"
  using assms unfolding Wait_inv_def
  by (elim conjE disjE) (simp_all add: chan_recv_def)


lemma Wait_inv_step:
  "Wait_inv x s \<Longrightarrow> Wait_inv x (sys_step s u)"
  by (cases u) (simp_all only: Wait_inv_Goroutine Wait_inv_Caller)

lemma Wait_inv_run:
  "Wait_inv x s \<Longrightarrow> Wait_inv x (foldl sys_step s schedule)"
  by (induction schedule arbitrary: s) (simp_all add: Wait_inv_step)

lemma Wait_todo_Goroutine:
  assumes "Wait_inv x s"
  shows "length (todo (sys_step s Goroutine)) = length (todo s) - 1"
  using assms unfolding Wait_inv_def
  by (elim conjE disjE) simp_all

lemma Wait_todo_Caller:
  assumes "Wait_inv x s"
  shows "todo (sys_step s Caller) = todo s"
  using assms unfolding Wait_inv_def
  by (elim conjE disjE) (simp_all add: chan_recv_def)

lemma Wait_todo_run:
  "Wait_inv x s \<Longrightarrow>
   length (todo (foldl sys_step s schedule))
     = length (todo s) - length (filter (\<lambda>u. u = Goroutine) schedule)"
proof (induction schedule arbitrary: s)
  case Nil
  show ?case by simp
next
  case (Cons u us)
  have inv: "Wait_inv x (sys_step s u)" using Cons.prems by (rule Wait_inv_step)
  show ?case
  proof (cases u)
    case Goroutine
    with Cons.IH [OF inv] Wait_todo_Goroutine [OF Cons.prems] show ?thesis by simp
  next
    case Caller
    with Cons.IH [OF inv] Wait_todo_Caller [OF Cons.prems] show ?thesis by simp
  qed
qed


lemma Wait_ops:
  "snd (Wait cl t) =
     [Send (case Wait_reply cl (task_id t) of
              Inl e \<Rightarrow> \<lparr>code = UnknownExitStatus, exitedAt = 0, err = Some e\<rparr>
            | Inr r \<Rightarrow> \<lparr>code = Wait_ExitStatus r,
                        exitedAt = FromTimestamp cl (Wait_ExitedAt r), err = None\<rparr>),
      Close]"
  by (simp add: Wait_def Wait_goroutine_def split: sum.splits)

lemma run_Wait_unfold:
  "run_Wait cl t schedule =
     foldl sys_step
       \<lparr>ch = \<lparr>buf = [], cap = 1, closed = False\<rparr>, todo = snd (Wait cl t), got = [],
        stuck = False\<rparr> schedule"
  by (simp add: run_Wait_def Wait_def make_chan_def)

text \<open>
  Claim C5. \<^verbatim>\<open>Wait\<close> returns an open, empty channel of capacity 1 and a nil error. Its
  goroutine performs one send and then closes the channel, whether the wait call succeeds
  or fails; on failure the exit status sent has code 255 and carries the error of the
  call, on success it has the code and time of the reply. Under every schedule of the
  goroutine and the caller the goroutine is never blocked and never panics; the exit
  status is at every moment in exactly one place (still to be sent, buffered, or
  received); the channel is closed exactly when the goroutine has finished; and the
  goroutine has finished after two turns of its own, whatever the caller does, also when
  the caller never receives.
\<close>

theorem Wait_delivers_once:
  fixes cl t
  defines "x \<equiv> (case Wait_reply cl (task_id t) of
              Inl e \<Rightarrow> \<lparr>code = UnknownExitStatus, exitedAt = 0, err = Some e\<rparr>
            | Inr r \<Rightarrow> \<lparr>code = Wait_ExitStatus r,
                        exitedAt = FromTimestamp cl (Wait_ExitedAt r), err = None\<rparr>)"
  shows "fst (Wait cl t) = (\<lparr>buf = [], cap = 1, closed = False\<rparr>, None)
       \<and> snd (Wait cl t) = [Send x, Close]
       \<and> (\<forall>e. Wait_reply cl (task_id t) = Inl e \<longrightarrow> code x = 255 \<and> err x = Some e)
       \<and> (\<forall>r. Wait_reply cl (task_id t) = Inr r \<longrightarrow>
            code x = Wait_ExitStatus r \<and> exitedAt x = FromTimestamp cl (Wait_ExitedAt r)
            \<and> err x = None)
       \<and> (\<forall>schedule.
            \<not> stuck (run_Wait cl t schedule)
            \<and> got (run_Wait cl t schedule) @ buf (ch (run_Wait cl t schedule))
                @ concat (map (\<lambda>op. case op of Send v \<Rightarrow> [v] | Close \<Rightarrow> [])
                            (todo (run_Wait cl t schedule))) = [x]
            \<and> closed (ch (run_Wait cl t schedule)) = (todo (run_Wait cl t schedule) = [])
            \<and> (2 \<le> length (filter (\<lambda>u. u = Goroutine) schedule) \<longrightarrow>
                 todo (run_Wait cl t schedule) = []
                 \<and> closed (ch (run_Wait cl t schedule))))"
proof -
  have ops: "snd (Wait cl t) = [Send x, Close]"
    unfolding x_def by (rule Wait_ops)
  have chan: "fst (Wait cl t) = (\<lparr>buf = [], cap = 1, closed = False\<rparr>, None)"
    by (simp add: Wait_def make_chan_def)
  have run: "run_Wait cl t schedule =
      foldl sys_step \<lparr>ch = \<lparr>buf = [], cap = 1, closed = False\<rparr>, todo = [Send x, Close],
                      got = [], stuck = False\<rparr> schedule" for schedule
    by (simp only: run_Wait_unfold ops)
  have init: "Wait_inv x \<lparr>ch = \<lparr>buf = [], cap = 1, closed = False\<rparr>, todo = [Send x, Close],
                      got = [], stuck = False\<rparr>"
    by (simp add: Wait_inv_def)
  have inv: "Wait_inv x (run_Wait cl t schedule)" for schedule
    unfolding run using init by (rule Wait_inv_run)
  have len: "length (todo (run_Wait cl t schedule))
      = 2 - length (filter (\<lambda>u. u = Goroutine) schedule)" for schedule
    unfolding run using Wait_todo_run [OF init, of schedule] by simp
  have s1: "\<not> stuck (run_Wait cl t schedule)" for schedule
    using inv [of schedule] by (simp add: Wait_inv_def)
  have s2: "got (run_Wait cl t schedule) @ buf (ch (run_Wait cl t schedule))
                @ concat (map (\<lambda>op. case op of Send v \<Rightarrow> [v] | Close \<Rightarrow> [])
                            (todo (run_Wait cl t schedule))) = [x]" for schedule
    using inv [of schedule] unfolding Wait_inv_def by (elim conjE disjE) simp_all
  have s3: "closed (ch (run_Wait cl t schedule)) = (todo (run_Wait cl t schedule) = [])"
    for schedule
    using inv [of schedule] unfolding Wait_inv_def by (elim conjE disjE) simp_all
  have s4: "2 \<le> length (filter (\<lambda>u. u = Goroutine) schedule) \<longrightarrow>
                 todo (run_Wait cl t schedule) = []
                 \<and> closed (ch (run_Wait cl t schedule))" for schedule
  proof
    assume "2 \<le> length (filter (\<lambda>u. u = Goroutine) schedule)"
    with len [of schedule] have "todo (run_Wait cl t schedule) = []" by simp
    with s3 [of schedule] show "todo (run_Wait cl t schedule) = []
                 \<and> closed (ch (run_Wait cl t schedule))" by simp
  qed
  have fail: "\<forall>e. Wait_reply cl (task_id t) = Inl e \<longrightarrow> code x = 255 \<and> err x = Some e"
    by (simp add: x_def UnknownExitStatus_def)
  have succ: "\<forall>r. Wait_reply cl (task_id t) = Inr r \<longrightarrow>
            code x = Wait_ExitStatus r \<and> exitedAt x = FromTimestamp cl (Wait_ExitedAt r)
            \<and> err x = None"
    by (simp add: x_def)
  have sched: "\<forall>schedule.
            \<not> stuck (run_Wait cl t schedule)
            \<and> got (run_Wait cl t schedule) @ buf (ch (run_Wait cl t schedule))
                @ concat (map (\<lambda>op. case op of Send v \<Rightarrow> [v] | Close \<Rightarrow> [])
                            (todo (run_Wait cl t schedule))) = [x]
            \<and> closed (ch (run_Wait cl t schedule)) = (todo (run_Wait cl t schedule) = [])
            \<and> (2 \<le> length (filter (\<lambda>u. u = Goroutine) schedule) \<longrightarrow>
                 todo (run_Wait cl t schedule) = []
                 \<and> closed (ch (run_Wait cl t schedule)))"
    by (intro allI conjI) (rule s1, rule s2, rule s3, rule s4)
  show ?thesis
    using chan ops fail succ sched by (intro conjI) assumption+
qed

text \<open>
  Witness for C5: a wait call refused by the transport with a caller that never receives,
  and a successful wait call with a caller that receives.
\<close>

theorem Wait_delivers_once_witness:
  "snd (Wait (failing_Wait (sample_Client RUNNING)) sample_task) =
     [Send \<lparr>code = 255, exitedAt = 0, err = Some sample_unavailable\<rparr>, Close]
   \<and> run_Wait (failing_Wait (sample_Client RUNNING)) sample_task [Goroutine, Goroutine] =
       \<lparr>ch = \<lparr>buf = [\<lparr>code = 255, exitedAt = 0, err = Some sample_unavailable\<rparr>], cap = 1,
              closed = True\<rparr>,
        todo = [], got = [], stuck = False\<rparr>
   \<and> run_Wait (sample_Client RUNNING) sample_task [Caller, Goroutine, Caller, Goroutine, Caller] =
       \<lparr>ch = \<lparr>buf = [], cap = 1, closed = True\<rparr>,
        todo = [],
        got = [\<lparr>code = 3, exitedAt = 62135596805000000007, err = None\<rparr>],
        stuck = False\<rparr>"
proof -
  have f: "Wait_reply (failing_Wait (sample_Client RUNNING)) (task_id sample_task)
      = Inl sample_unavailable"
    by (simp add: failing_Wait_def)
  have ops: "snd (Wait (failing_Wait (sample_Client RUNNING)) sample_task) =
     [Send \<lparr>code = 255, exitedAt = 0, err = Some sample_unavailable\<rparr>, Close]"
    using Wait_delivers_once [of "failing_Wait (sample_Client RUNNING)" sample_task] f
    by simp
  have r1: "run_Wait (failing_Wait (sample_Client RUNNING)) sample_task [Goroutine, Goroutine] =
       \<lparr>ch = \<lparr>buf = [\<lparr>code = 255, exitedAt = 0, err = Some sample_unavailable\<rparr>], cap = 1,
              closed = True\<rparr>,
        todo = [], got = [], stuck = False\<rparr>"
    by (simp add: run_Wait_unfold ops)
  have r2: "run_Wait (sample_Client RUNNING) sample_task
        [Caller, Goroutine, Caller, Goroutine, Caller] =
       \<lparr>ch = \<lparr>buf = [], cap = 1, closed = True\<rparr>,
        todo = [],
        got = [\<lparr>code = 3, exitedAt = 62135596805000000007, err = None\<rparr>],
        stuck = False\<rparr>"
    by (simp add: run_Wait_unfold Wait_def Wait_goroutine_def chan_recv_def sample_defs
        failing_Wait_def)
  from ops r1 r2 show ?thesis by simp
qed

subsection \<open>Checkpoint\<close>

lemma andThen_Inl: "andThen (Inl e, tr) f = (Inl e, tr)"
  by (simp add: andThen_def)

lemma andThen_Inr: "andThen (Inr x, tr) f = (fst (f x), tr @ snd (f x))"
  by (simp add: andThen_def split: prod.splits)

lemma andThen_events:
  assumes "\<forall>e\<in>set (snd m). P e"
    and "\<And>x. \<forall>e\<in>set (snd (f x)). P e"
  shows "\<forall>e\<in>set (snd (andThen m f)). P e"
proof (cases m)
  case (Pair r tr)
  show ?thesis
  proof (cases r)
    case (Inl e)
    with Pair assms(1) show ?thesis by (simp add: andThen_Inl)
  next
    case (Inr x)
    with Pair assms(1) assms(2) [of x] show ?thesis by (auto simp: andThen_Inr)
  qed
qed

lemma if_events:
  assumes "c \<Longrightarrow> \<forall>e\<in>set (snd a). P e"
    and "\<not> c \<Longrightarrow> \<forall>e\<in>set (snd b). P e"
  shows "\<forall>e\<in>set (snd (if c then a else b)). P e"
  using assms by simp

lemma checkpointTask_trace:
  "snd (checkpointTask cl t ix request) = [TaskService_Checkpoint request]"
  by (simp add: checkpointTask_def split: sum.splits)

lemma checkpointImage_quiet:
  "\<forall>e\<in>set (snd (checkpointImage cl t ix n)). \<not> pauses_or_resumes e"
  by (simp add: checkpointImage_def split: sum.splits)

lemma checkpointRWSnapshot_trace:
  "snd (checkpointRWSnapshot cl t ix sn sid) = [Call_CreateDiff sid sn (''checkpoint-rw-'' @ sid)]"
  by (simp add: checkpointRWSnapshot_def Let_def split: sum.splits)

lemma writeContent_quiet:
  "\<forall>e\<in>set (snd (writeContent cl mt ref r)). \<not> pauses_or_resumes e"
  by (simp add: writeContent_def split: sum.splits option.splits)

lemma writeIndex_quiet:
  "\<forall>e\<in>set (snd (writeIndex cl ix ref)). \<not> pauses_or_resumes e"
  unfolding writeIndex_def
  by (rule andThen_events) (simp_all add: writeContent_quiet)

lemma Checkpoint_capture_quiet:
  "\<forall>e\<in>set (snd (Checkpoint_capture cl t cr i request)). \<not> pauses_or_resumes e"
  unfolding Checkpoint_capture_def Let_def
proof (intro andThen_events if_events)
  show "\<forall>e\<in>set (snd (checkpointTask cl t
        \<lparr>SchemaVersion = 2, Manifests = [], Index_Annotations = Map.empty\<rparr> request)).
        \<not> pauses_or_resumes e"
    by (simp add: checkpointTask_trace)
qed (simp_all add: checkpointImage_quiet writeIndex_quiet checkpointRWSnapshot_trace Let_def)

lemma run_checkpoint_opts_events:
  "set (snd (run_checkpoint_opts os i)) \<subseteq> {Call_CheckpointTaskOpt}"
proof (induction os arbitrary: i)
  case Nil
  show ?case by simp
next
  case (Cons opt os)
  show ?case
    using Cons [of "snd (opt i)"] by (auto split: prod.splits option.splits)
qed

lemma Checkpoint_request_events:
  "set (snd (Checkpoint_request cl t i)) \<subseteq> {Call_MarshalAnyToProto}"
  by (simp add: Checkpoint_request_def Let_def split: option.splits sum.splits)

lemma Checkpoint_paused_resumes:
  assumes "Pause_reply cl (task_id t) = None"
    and "TaskService_Pause (task_id t) \<in> set (snd (Checkpoint_paused cl t cr i request))"
  shows "Checkpoint_paused cl t cr i request =
     (fst (Checkpoint_capture cl t cr i request),
      [TaskService_Get \<lparr>Get_ContainerID = task_id t, Get_ExecID = ''''\<rparr>,
       TaskService_Pause (task_id t)]
      @ snd (Checkpoint_capture cl t cr i request)
      @ [TaskService_Resume (task_id t)])"
proof (cases "task_Status cl t")
  case (Pair a tr)
  obtain st serr where a: "a = (st, serr)" by (cases a)
  have tr: "tr = [TaskService_Get \<lparr>Get_ContainerID = task_id t, Get_ExecID = ''''\<rparr>]"
    using task_Status_trace [of cl t] Pair by simp
  have quiet: "TaskService_Pause (task_id t) \<notin> set (snd (Checkpoint_capture cl t cr i request))"
    using Checkpoint_capture_quiet [of cl t cr i request] by auto
  have pause: "Pause cl t = (None, [TaskService_Pause (task_id t)])"
    using assms(1) by (simp add: Pause_def)
  show ?thesis
  proof (cases serr)
    case (Some e)
    with Pair a tr have "Checkpoint_paused cl t cr i request = (Inl e, tr)"
      by (simp add: Checkpoint_paused_def check_def andThen_Inl)
    with assms(2) tr show ?thesis by simp
  next
    case None
    with Pair a have chk: "check (task_Status cl t) = (Inr st, tr)"
      by (simp add: check_def)
    show ?thesis
    proof (cases "Status st = Paused")
      case True
      with chk have "Checkpoint_paused cl t cr i request =
          (fst (Checkpoint_capture cl t cr i request),
           tr @ snd (Checkpoint_capture cl t cr i request))"
        by (simp add: Checkpoint_paused_def andThen_Inr)
      with assms(2) tr quiet show ?thesis by simp
    next
      case False
      with chk pause tr show ?thesis
        by (simp add: Checkpoint_paused_def andThen_Inr check_err_def Resume_def
            split: prod.splits)
    qed
  qed
qed

lemma Checkpoint_leased_reaches:
  assumes "TaskService_Pause (task_id t) \<in> set (snd (Checkpoint_leased cl t opts))"
  shows "\<exists>cr i request pre.
      Checkpoint_leased cl t opts =
        (fst (Checkpoint_paused cl t cr i request),
         pre @ snd (Checkpoint_paused cl t cr i request))
      \<and> (\<forall>e\<in>set pre. \<not> pauses_or_resumes e)"
proof (cases "ContainerGet_reply cl (task_id t)")
  case (Inl e)
  then have "Checkpoint_leased cl t opts = (Inl e, [ContainerService_Get (task_id t)])"
    by (simp add: Checkpoint_leased_def andThen_Inl)
  with assms show ?thesis by simp
next
  case (Inr cr)
  let ?i = "\<lparr>Name = '''', ParentCheckpoint = '''', Options = None, runtime = Runtime_Name cr\<rparr>"
  obtain r1 tr1 where o: "run_checkpoint_opts opts ?i = (r1, tr1)"
    by (cases "run_checkpoint_opts opts ?i")
  have q1: "\<forall>e\<in>set tr1. \<not> pauses_or_resumes e"
    using run_checkpoint_opts_events [of opts ?i] o by auto
  show ?thesis
  proof (cases r1)
    case (Inl e)
    with Inr o have "Checkpoint_leased cl t opts = (Inl e, ContainerService_Get (task_id t) # tr1)"
      by (simp add: Checkpoint_leased_def andThen_Inl andThen_Inr)
    with assms q1 show ?thesis by auto
  next
    case i0: (Inr i0)
    obtain r2 tr2 where rq: "Checkpoint_request cl t (Checkpoint_name cl t i0) = (r2, tr2)"
      by (cases "Checkpoint_request cl t (Checkpoint_name cl t i0)")
    have q2: "\<forall>e\<in>set tr2. \<not> pauses_or_resumes e"
      using Checkpoint_request_events [of cl t "Checkpoint_name cl t i0"] rq by auto
    show ?thesis
    proof (cases r2)
      case (Inl e)
      with Inr o i0 rq have "Checkpoint_leased cl t opts =
          (Inl e, ContainerService_Get (task_id t) # tr1 @ tr2)"
        by (simp add: Checkpoint_leased_def andThen_Inl andThen_Inr)
      with assms q1 q2 show ?thesis by auto
    next
      case request: (Inr request)
      with Inr o i0 rq have "Checkpoint_leased cl t opts =
          (fst (Checkpoint_paused cl t cr (Checkpoint_name cl t i0) request),
           (ContainerService_Get (task_id t) # tr1 @ tr2)
           @ snd (Checkpoint_paused cl t cr (Checkpoint_name cl t i0) request))"
        by (simp add: Checkpoint_leased_def andThen_Inl andThen_Inr)
      moreover have "\<forall>e\<in>set (ContainerService_Get (task_id t) # tr1 @ tr2).
          \<not> pauses_or_resumes e"
        using q1 q2 by auto
      ultimately show ?thesis by blast
    qed
  qed
qed

text \<open>
  Claim C6. Whenever \<^verbatim>\<open>Checkpoint\<close> has called \<^verbatim>\<open>Pause\<close> and the call has succeeded,
  the calls it makes are: those before the pause, the pause, the calls of the steps that
  follow (runtime-state capture, image lookup, snapshot diff, index publication, image
  registration), then \<^verbatim>\<open>Resume\<close>, then the release of the lease. What \<^verbatim>\<open>Checkpoint\<close>
  returns is what those steps return, an image or the error of the step that failed, so
  \<^verbatim>\<open>Resume\<close> is called on every exit path. No other call pauses or resumes the task.
\<close>

theorem Checkpoint_resumes:
  assumes "TaskService_Pause (task_id t) \<in> set (snd (Checkpoint cl t opts))"
    and "Pause_reply cl (task_id t) = None"
  shows "\<exists>pre cr i request.
      snd (Checkpoint cl t opts) =
        pre @ [TaskService_Pause (task_id t)]
        @ snd (Checkpoint_capture cl t cr i request)
        @ [TaskService_Resume (task_id t), Lease_done]
      \<and> fst (Checkpoint cl t opts) = fst (Checkpoint_capture cl t cr i request)
      \<and> (\<forall>e\<in>set pre. \<not> pauses_or_resumes e)
      \<and> (\<forall>e\<in>set (snd (Checkpoint_capture cl t cr i request)). \<not> pauses_or_resumes e)"
proof (cases "WithLease cl")
  case (Some e)
  then have "Checkpoint cl t opts = (Inl e, [Client_WithLease])"
    by (simp add: Checkpoint_def)
  with assms(1) show ?thesis by simp
next
  case None
  then have C: "Checkpoint cl t opts =
      (fst (Checkpoint_leased cl t opts),
       [Client_WithLease] @ snd (Checkpoint_leased cl t opts) @ [Lease_done])"
    by (simp add: Checkpoint_def split: prod.splits)
  with assms(1) have "TaskService_Pause (task_id t) \<in> set (snd (Checkpoint_leased cl t opts))"
    by simp
  from Checkpoint_leased_reaches [OF this] obtain cr i request pre0 where
    L: "Checkpoint_leased cl t opts =
        (fst (Checkpoint_paused cl t cr i request),
         pre0 @ snd (Checkpoint_paused cl t cr i request))"
    and q0: "\<forall>e\<in>set pre0. \<not> pauses_or_resumes e"
    by blast
  from C L assms(1) q0
  have "TaskService_Pause (task_id t) \<in> set (snd (Checkpoint_paused cl t cr i request))"
    by auto
  from Checkpoint_paused_resumes [OF assms(2) this]
  have P: "Checkpoint_paused cl t cr i request =
     (fst (Checkpoint_capture cl t cr i request),
      [TaskService_Get \<lparr>Get_ContainerID = task_id t, Get_ExecID = ''''\<rparr>,
       TaskService_Pause (task_id t)]
      @ snd (Checkpoint_capture cl t cr i request)
      @ [TaskService_Resume (task_id t)])" .
  let ?pre = "Client_WithLease # pre0
      @ [TaskService_Get \<lparr>Get_ContainerID = task_id t, Get_ExecID = ''''\<rparr>]"
  have "snd (Checkpoint cl t opts) =
        ?pre @ [TaskService_Pause (task_id t)]
        @ snd (Checkpoint_capture cl t cr i request)
        @ [TaskService_Resume (task_id t), Lease_done]"
    by (simp add: C L P)
  moreover have "fst (Checkpoint cl t opts) = fst (Checkpoint_capture cl t cr i request)"
    by (simp add: C L P)
  moreover have "\<forall>e\<in>set ?pre. \<not> pauses_or_resumes e"
    using q0 by simp
  moreover note Checkpoint_capture_quiet [of cl t cr i request]
  ultimately show ?thesis by blast
qed

lemmas Checkpoint_defs = Checkpoint_def Checkpoint_leased_def Checkpoint_paused_def
  Checkpoint_capture_def Checkpoint_request_def Checkpoint_name_def check_def check_err_def
  andThen_def checkpointTask_def checkpointImage_def checkpointRWSnapshot_def writeIndex_def
  writeContent_def isCheckpointPathExist_def Pause_def Resume_def task_Status_def
  NewImage_def

text \<open>
  Witness for C6: the image lookup fails after the task has been paused; \<^verbatim>\<open>Resume\<close> is
  called before the error is returned.
\<close>

theorem Checkpoint_resumes_witness:
  "Checkpoint (failing_ImageGet (sample_Client RUNNING)) sample_task [] =
     (Inl (Sentinel ErrNotFound),
      [Client_WithLease, ContainerService_Get ''redis'',
       TaskService_Get \<lparr>Get_ContainerID = ''redis'', Get_ExecID = ''''\<rparr>,
       TaskService_Pause ''redis'',
       TaskService_Checkpoint
         \<lparr>Checkpoint_ContainerID = ''redis'', Checkpoint_ParentCheckpoint = '''',
          Checkpoint_Options = None\<rparr>,
       ImageService_Get ''docker.io/library/redis:latest'',
       TaskService_Resume ''redis'', Lease_done])
   \<and> (\<exists>pre cr i request.
        snd (Checkpoint (failing_ImageGet (sample_Client RUNNING)) sample_task []) =
          pre @ [TaskService_Pause ''redis'']
          @ snd (Checkpoint_capture (failing_ImageGet (sample_Client RUNNING)) sample_task cr i
                   request)
          @ [TaskService_Resume ''redis'', Lease_done])"
proof -
  let ?cl = "failing_ImageGet (sample_Client RUNNING)"
  have C: "Checkpoint ?cl sample_task [] =
     (Inl (Sentinel ErrNotFound),
      [Client_WithLease, ContainerService_Get ''redis'',
       TaskService_Get \<lparr>Get_ContainerID = ''redis'', Get_ExecID = ''''\<rparr>,
       TaskService_Pause ''redis'',
       TaskService_Checkpoint
         \<lparr>Checkpoint_ContainerID = ''redis'', Checkpoint_ParentCheckpoint = '''',
          Checkpoint_Options = None\<rparr>,
       ImageService_Get ''docker.io/library/redis:latest'',
       TaskService_Resume ''redis'', Lease_done])"
    by (simp add: Checkpoint_defs sample_defs failing_ImageGet_def ToLower_enum status_defs)
  have tid: "task_id sample_task = ''redis''"
    by (simp add: sample_task_def)
  have p: "TaskService_Pause (task_id sample_task) \<in> set (snd (Checkpoint ?cl sample_task []))"
    by (simp add: C tid)
  have q: "Pause_reply ?cl (task_id sample_task) = None"
    by (simp add: sample_defs failing_ImageGet_def)
  from Checkpoint_resumes [OF p q]
  have E: "\<exists>pre cr i request.
        snd (Checkpoint ?cl sample_task []) =
          pre @ [TaskService_Pause ''redis'']
          @ snd (Checkpoint_capture ?cl sample_task cr i request)
          @ [TaskService_Resume ''redis'', Lease_done]"
    unfolding tid by blast
  show ?thesis
    by (intro conjI) (rule C, rule E)
qed

lemma Checkpoint_capture_short:
  assumes "isCheckpointPathExist cl (Runtime_Name cr) (Options i)"
  shows "Checkpoint_capture cl t cr i request =
     (case Checkpoint_reply cl request of
        Inl e \<Rightarrow> (Inl (ToNative cl e), [TaskService_Checkpoint request])
      | Inr ds \<Rightarrow> (Inr (NewImage cl zero_Image), [TaskService_Checkpoint request]))"
  using assms
  by (simp add: Checkpoint_capture_def checkpointTask_def andThen_Inl andThen_Inr
      split: sum.splits)

lemma Checkpoint_short_cases:
  assumes get: "ContainerGet_reply cl (task_id t) = Inr cr"
    and rt: "Runtime_Name cr = RuntimeRuncV2 cl"
    and opts: "fst (run_checkpoint_opts opts
                 \<lparr>Name = '''', ParentCheckpoint = '''', Options = None,
                  runtime = Runtime_Name cr\<rparr>) = Inr i0"
    and o: "Options i0 = Some (CheckpointOptions co)"
    and path: "ImagePath co \<noteq> ''''"
  obtains (early) e pre where
      "Checkpoint cl t opts = (Inl e, pre)"
      "\<forall>x\<in>set pre. \<not> writes_store x \<and> (\<forall>r. x \<noteq> TaskService_Checkpoint r)"
    | (failed) e request pre post where
      "Checkpoint_reply cl request = Inl e"
      "Checkpoint cl t opts =
         (Inl (ToNative cl e), pre @ [TaskService_Checkpoint request] @ post)"
      "\<forall>x\<in>set pre. \<not> writes_store x \<and> (\<forall>r. x \<noteq> TaskService_Checkpoint r)"
      "post = [Lease_done] \<or> post = [TaskService_Resume (task_id t), Lease_done]"
    | (short) descs request pre post where
      "Checkpoint_reply cl request = Inr descs"
      "Checkpoint cl t opts = (Inr (NewImage cl zero_Image), pre @ [TaskService_Checkpoint request] @ post)"
      "\<forall>x\<in>set pre. \<not> writes_store x \<and> (\<forall>r. x \<noteq> TaskService_Checkpoint r)"
      "post = [Lease_done] \<or> post = [TaskService_Resume (task_id t), Lease_done]"
proof (cases "WithLease cl")
  case (Some e)
  then have "Checkpoint cl t opts = (Inl e, [Client_WithLease])"
    by (simp add: Checkpoint_def)
  then show ?thesis by (rule early) simp
next
  case None
  let ?i = "Checkpoint_name cl t i0"
  obtain tr1 where o1: "run_checkpoint_opts opts
      \<lparr>Name = '''', ParentCheckpoint = '''', Options = None, runtime = Runtime_Name cr\<rparr>
      = (Inr i0, tr1)"
    using opts
    by (cases "run_checkpoint_opts opts
      \<lparr>Name = '''', ParentCheckpoint = '''', Options = None, runtime = Runtime_Name cr\<rparr>")
      simp
  have q1: "\<forall>x\<in>set tr1. x = Call_CheckpointTaskOpt"
    using run_checkpoint_opts_events
      [of opts "\<lparr>Name = '''', ParentCheckpoint = '''', Options = None,
                 runtime = Runtime_Name cr\<rparr>"] o1
    by auto
  have ex: "isCheckpointPathExist cl (Runtime_Name cr) (Options ?i)"
    using rt o path by (simp add: isCheckpointPathExist_def Checkpoint_name_def)
  have L: "Checkpoint cl t opts =
      (fst (andThen (Checkpoint_request cl t ?i) (Checkpoint_paused cl t cr ?i)),
       [Client_WithLease, ContainerService_Get (task_id t)] @ tr1
       @ snd (andThen (Checkpoint_request cl t ?i) (Checkpoint_paused cl t cr ?i))
       @ [Lease_done])"
    using None get o1
    by (simp add: Checkpoint_def Checkpoint_leased_def andThen_Inr split: prod.splits)
  obtain r2 tr2 where rq: "Checkpoint_request cl t ?i = (r2, tr2)"
    by (cases "Checkpoint_request cl t ?i")
  have q2: "\<forall>x\<in>set tr2. x = Call_MarshalAnyToProto"
    using Checkpoint_request_events [of cl t ?i] rq by auto
  show ?thesis
  proof (cases r2)
    case (Inl e)
    with L rq have "Checkpoint cl t opts =
        (Inl e, [Client_WithLease, ContainerService_Get (task_id t)] @ tr1 @ tr2 @ [Lease_done])"
      by (simp add: andThen_Inl)
    then show ?thesis by (rule early) (use q1 q2 in auto)
  next
    case (Inr request)
    with L rq have L2: "Checkpoint cl t opts =
        (fst (Checkpoint_paused cl t cr ?i request),
         [Client_WithLease, ContainerService_Get (task_id t)] @ tr1 @ tr2
         @ snd (Checkpoint_paused cl t cr ?i request) @ [Lease_done])"
      by (simp add: andThen_Inr)
    obtain st serr where ts: "task_Status cl t =
        ((st, serr), [TaskService_Get \<lparr>Get_ContainerID = task_id t, Get_ExecID = ''''\<rparr>])"
      using task_Status_trace [of cl t] by (cases "task_Status cl t") auto
    let ?get = "TaskService_Get \<lparr>Get_ContainerID = task_id t, Get_ExecID = ''''\<rparr>"
    let ?pre = "[Client_WithLease, ContainerService_Get (task_id t)] @ tr1 @ tr2 @ [?get]"
    have qpre: "\<forall>x\<in>set ?pre. \<not> writes_store x \<and> (\<forall>r. x \<noteq> TaskService_Checkpoint r)"
      using q1 q2 by auto
    show ?thesis
    proof (cases serr)
      case (Some e)
      with ts have "Checkpoint_paused cl t cr ?i request = (Inl e, [?get])"
        by (simp add: Checkpoint_paused_def check_def andThen_Inl)
      with L2 have "Checkpoint cl t opts = (Inl e, ?pre @ [Lease_done])"
        by simp
      then show ?thesis by (rule early) (use qpre in auto)
    next
      case None
      with ts have chk: "check (task_Status cl t) = (Inr st, [?get])"
        by (simp add: check_def)
      show ?thesis
      proof (cases "Status st = Paused")
        case True
        with chk have P: "Checkpoint_paused cl t cr ?i request =
            (fst (Checkpoint_capture cl t cr ?i request),
             [?get] @ snd (Checkpoint_capture cl t cr ?i request))"
          by (simp add: Checkpoint_paused_def andThen_Inr)
        show ?thesis
        proof (cases "Checkpoint_reply cl request")
          case (Inl e)
          with P L2 have "Checkpoint cl t opts =
              (Inl (ToNative cl e), ?pre @ [TaskService_Checkpoint request] @ [Lease_done])"
            by (simp add: Checkpoint_capture_short [OF ex])
          with Inl show ?thesis by (rule failed) (use qpre in simp_all)
        next
          case (Inr descs)
          with P L2 have "Checkpoint cl t opts =
              (Inr (NewImage cl zero_Image), ?pre @ [TaskService_Checkpoint request] @ [Lease_done])"
            by (simp add: Checkpoint_capture_short [OF ex])
          with Inr show ?thesis by (rule short) (use qpre in simp_all)
        qed
      next
        case False
        show ?thesis
        proof (cases "Pause_reply cl (task_id t)")
          case (Some e)
          with False chk have "Checkpoint_paused cl t cr ?i request =
              (Inl (ToNative cl e), [?get, TaskService_Pause (task_id t)])"
            by (simp add: Checkpoint_paused_def andThen_Inr andThen_Inl check_err_def Pause_def)
          with L2 have "Checkpoint cl t opts =
              (Inl (ToNative cl e), ?pre @ [TaskService_Pause (task_id t)] @ [Lease_done])"
            by simp
          then show ?thesis by (rule early) (use qpre in auto)
        next
          case None
          with False chk have P: "Checkpoint_paused cl t cr ?i request =
              (fst (Checkpoint_capture cl t cr ?i request),
               [?get, TaskService_Pause (task_id t)]
               @ snd (Checkpoint_capture cl t cr ?i request)
               @ [TaskService_Resume (task_id t)])"
            by (simp add: Checkpoint_paused_def andThen_Inr check_err_def Pause_def Resume_def
                split: prod.splits)
          let ?pre' = "?pre @ [TaskService_Pause (task_id t)]"
          have qpre': "\<forall>x\<in>set ?pre'. \<not> writes_store x \<and> (\<forall>r. x \<noteq> TaskService_Checkpoint r)"
            using qpre by simp
          show ?thesis
          proof (cases "Checkpoint_reply cl request")
            case (Inl e)
            with P L2 have "Checkpoint cl t opts =
                (Inl (ToNative cl e),
                 ?pre' @ [TaskService_Checkpoint request]
                 @ [TaskService_Resume (task_id t), Lease_done])"
              by (simp add: Checkpoint_capture_short [OF ex])
            with Inl show ?thesis by (rule failed) (use qpre' in simp_all)
          next
            case (Inr descs)
            with P L2 have "Checkpoint cl t opts =
                (Inr (NewImage cl zero_Image),
                 ?pre' @ [TaskService_Checkpoint request]
                 @ [TaskService_Resume (task_id t), Lease_done])"
              by (simp add: Checkpoint_capture_short [OF ex])
            with Inr show ?thesis by (rule short) (use qpre' in simp_all)
          qed
        qed
      qed
    qed
  qed
qed

lemma Checkpoint_short_success:
  assumes get: "ContainerGet_reply cl (task_id t) = Inr cr"
    and rt: "Runtime_Name cr = RuntimeRuncV2 cl"
    and opts: "fst (run_checkpoint_opts opts
                 \<lparr>Name = '''', ParentCheckpoint = '''', Options = None,
                  runtime = Runtime_Name cr\<rparr>) = Inr i0"
    and o: "Options i0 = Some (CheckpointOptions co)"
    and path: "ImagePath co \<noteq> ''''"
    and lease: "WithLease cl = None"
    and marshal: "Marshal_options cl (CheckpointOptions co) = Inr a"
    and status: "fst (task_Status cl t) = (st, None)"
    and pause: "Status st = Paused \<or> Pause_reply cl (task_id t) = None"
    and reply: "Checkpoint_reply cl
                  \<lparr>Checkpoint_ContainerID = task_id t,
                   Checkpoint_ParentCheckpoint = ParentCheckpoint i0,
                   Checkpoint_Options = Some a\<rparr> = Inr descs"
  shows "fst (Checkpoint cl t opts) = Inr (NewImage cl zero_Image)"
proof -
  let ?i = "Checkpoint_name cl t i0"
  let ?request = "\<lparr>Checkpoint_ContainerID = task_id t,
                   Checkpoint_ParentCheckpoint = ParentCheckpoint i0,
                   Checkpoint_Options = Some a\<rparr>"
  obtain tr1 where o1: "run_checkpoint_opts opts
      \<lparr>Name = '''', ParentCheckpoint = '''', Options = None, runtime = Runtime_Name cr\<rparr>
      = (Inr i0, tr1)"
    using opts
    by (cases "run_checkpoint_opts opts
      \<lparr>Name = '''', ParentCheckpoint = '''', Options = None, runtime = Runtime_Name cr\<rparr>")
      simp
  have ex: "isCheckpointPathExist cl (Runtime_Name cr) (Options ?i)"
    using rt o path by (simp add: isCheckpointPathExist_def Checkpoint_name_def)
  have rq: "Checkpoint_request cl t ?i = (Inr ?request, [Call_MarshalAnyToProto])"
    using o marshal by (simp add: Checkpoint_request_def Checkpoint_name_def)
  have cap: "fst (Checkpoint_capture cl t cr ?i ?request) = Inr (NewImage cl zero_Image)"
    using reply by (simp add: Checkpoint_capture_short [OF ex])
  obtain tr3 where ts: "task_Status cl t = ((st, None), tr3)"
    using status by (cases "task_Status cl t") simp
  then have chk: "check (task_Status cl t) = (Inr st, tr3)"
    by (simp add: check_def)
  have "fst (Checkpoint_paused cl t cr ?i ?request) = Inr (NewImage cl zero_Image)"
  proof (cases "Status st = Paused")
    case True
    with chk cap show ?thesis
      by (simp add: Checkpoint_paused_def andThen_Inr)
  next
    case False
    with pause have "Pause cl t = (None, [TaskService_Pause (task_id t)])"
      by (simp add: Pause_def)
    with False chk cap show ?thesis
      by (auto simp: Checkpoint_paused_def andThen_Inr check_err_def split: prod.splits)
  qed
  with lease get o1 rq show ?thesis
    by (simp add: Checkpoint_def Checkpoint_leased_def andThen_Inr split: prod.splits)
qed

text \<open>
  Claim C7, amended. Let the container of the task have the runc-v2 runtime and let the
  info, after the checkpoint options have been applied, carry runc checkpoint options with
  a non-empty image path. Then \<^verbatim>\<open>Checkpoint\<close> never serialises an index and never writes to
  the content store or to the image catalog, whatever it returns: the index it has filled
  from the reply of the runtime-state call is dropped. It returns an image as soon as the
  lease, the marshalling of the options, \<^verbatim>\<open>Status\<close>, \<^verbatim>\<open>Pause\<close> (when the task is not
  paused already) and the runtime-state call succeed. When it returns an image, the image
  is made from the zero record, its target is the zero descriptor, the runtime-state call
  has been made and has succeeded, and it is the last call before the deferred
  \<^verbatim>\<open>Resume\<close> and the release of the lease. When the runtime-state call was made and
  failed, its error is returned, not an image.
\<close>

theorem Checkpoint_external_path:
  assumes get: "ContainerGet_reply cl (task_id t) = Inr cr"
    and rt: "Runtime_Name cr = RuntimeRuncV2 cl"
    and opts: "fst (run_checkpoint_opts opts
                 \<lparr>Name = '''', ParentCheckpoint = '''', Options = None,
                  runtime = Runtime_Name cr\<rparr>) = Inr i0"
    and o: "Options i0 = Some (CheckpointOptions co)"
    and path: "ImagePath co \<noteq> ''''"
  shows "(\<forall>e\<in>set (snd (Checkpoint cl t opts)). \<not> writes_store e)
       \<and> (\<forall>img. fst (Checkpoint cl t opts) = Inr img \<longrightarrow>
            img = NewImage cl zero_Image \<and> Image_Target img = zero_Descriptor
            \<and> (\<exists>request descs pre post.
                  Checkpoint_reply cl request = Inr descs
                  \<and> snd (Checkpoint cl t opts) = pre @ [TaskService_Checkpoint request] @ post
                  \<and> (post = [Lease_done]
                      \<or> post = [TaskService_Resume (task_id t), Lease_done])))
       \<and> (\<forall>request e.
            TaskService_Checkpoint request \<in> set (snd (Checkpoint cl t opts)) \<longrightarrow>
            Checkpoint_reply cl request = Inl e \<longrightarrow>
            fst (Checkpoint cl t opts) = Inl (ToNative cl e))
       \<and> (\<forall>a st descs.
            WithLease cl = None \<longrightarrow>
            Marshal_options cl (CheckpointOptions co) = Inr a \<longrightarrow>
            fst (task_Status cl t) = (st, None) \<longrightarrow>
            (Status st = Paused \<or> Pause_reply cl (task_id t) = None) \<longrightarrow>
            Checkpoint_reply cl
              \<lparr>Checkpoint_ContainerID = task_id t,
               Checkpoint_ParentCheckpoint = ParentCheckpoint i0,
               Checkpoint_Options = Some a\<rparr> = Inr descs \<longrightarrow>
            fst (Checkpoint cl t opts) = Inr (NewImage cl zero_Image))"
proof -
  have A: "(\<forall>e\<in>set (snd (Checkpoint cl t opts)). \<not> writes_store e)
       \<and> (\<forall>img. fst (Checkpoint cl t opts) = Inr img \<longrightarrow>
            img = NewImage cl zero_Image \<and> Image_Target img = zero_Descriptor
            \<and> (\<exists>request descs pre post.
                  Checkpoint_reply cl request = Inr descs
                  \<and> snd (Checkpoint cl t opts) = pre @ [TaskService_Checkpoint request] @ post
                  \<and> (post = [Lease_done]
                      \<or> post = [TaskService_Resume (task_id t), Lease_done])))
       \<and> (\<forall>request e.
            TaskService_Checkpoint request \<in> set (snd (Checkpoint cl t opts)) \<longrightarrow>
            Checkpoint_reply cl request = Inl e \<longrightarrow>
            fst (Checkpoint cl t opts) = Inl (ToNative cl e))"
    using get rt opts o path
  proof (cases rule: Checkpoint_short_cases)
    case (early e pre)
    then show ?thesis by auto
  next
    case (failed e request pre post)
    then show ?thesis by auto
  next
    case (short descs request pre post)
    have tgt: "Image_Target (NewImage cl zero_Image) = zero_Descriptor"
      by (simp add: NewImage_def zero_Image_def)
    have w: "\<forall>e\<in>set (snd (Checkpoint cl t opts)). \<not> writes_store e"
      using short by auto
    have r: "\<forall>request' e.
            TaskService_Checkpoint request' \<in> set (snd (Checkpoint cl t opts)) \<longrightarrow>
            Checkpoint_reply cl request' = Inl e \<longrightarrow>
            fst (Checkpoint cl t opts) = Inl (ToNative cl e)"
      using short by auto
    have i: "\<forall>img. fst (Checkpoint cl t opts) = Inr img \<longrightarrow>
            img = NewImage cl zero_Image \<and> Image_Target img = zero_Descriptor
            \<and> (\<exists>request descs pre post.
                  Checkpoint_reply cl request = Inr descs
                  \<and> snd (Checkpoint cl t opts) = pre @ [TaskService_Checkpoint request] @ post
                  \<and> (post = [Lease_done]
                      \<or> post = [TaskService_Resume (task_id t), Lease_done]))"
    proof (intro allI impI conjI)
      fix img
      assume "fst (Checkpoint cl t opts) = Inr img"
      with short(2) show "img = NewImage cl zero_Image" by simp
      then show "Image_Target img = zero_Descriptor" using tgt by simp
      show "\<exists>request descs pre post.
                  Checkpoint_reply cl request = Inr descs
                  \<and> snd (Checkpoint cl t opts) = pre @ [TaskService_Checkpoint request] @ post
                  \<and> (post = [Lease_done]
                      \<or> post = [TaskService_Resume (task_id t), Lease_done])"
        using short(1,2,4) by (intro exI [of _ request] exI [of _ descs] exI [of _ pre]
            exI [of _ post]) simp
    qed
    from w i r show ?thesis by (intro conjI)
  qed
  have B: "\<forall>a st descs.
            WithLease cl = None \<longrightarrow>
            Marshal_options cl (CheckpointOptions co) = Inr a \<longrightarrow>
            fst (task_Status cl t) = (st, None) \<longrightarrow>
            (Status st = Paused \<or> Pause_reply cl (task_id t) = None) \<longrightarrow>
            Checkpoint_reply cl
              \<lparr>Checkpoint_ContainerID = task_id t,
               Checkpoint_ParentCheckpoint = ParentCheckpoint i0,
               Checkpoint_Options = Some a\<rparr> = Inr descs \<longrightarrow>
            fst (Checkpoint cl t opts) = Inr (NewImage cl zero_Image)"
    using Checkpoint_short_success [OF get rt opts o path] by blast
  show ?thesis
    using A B by (intro conjI) (elim conjE, assumption)+
qed

text \<open>
  Witness for C7: the sample task on the runc-v2 runtime, checkpointed to a directory.
\<close>

theorem Checkpoint_external_path_witness:
  "fst (Checkpoint (sample_Client RUNNING) sample_task [sample_ImagePath]) = Inr (NewImage (sample_Client RUNNING) zero_Image)
   \<and> snd (Checkpoint (sample_Client RUNNING) sample_task [sample_ImagePath]) =
       [Client_WithLease, ContainerService_Get ''redis'', Call_CheckpointTaskOpt,
        Call_MarshalAnyToProto,
        TaskService_Get \<lparr>Get_ContainerID = ''redis'', Get_ExecID = ''''\<rparr>,
        TaskService_Pause ''redis'',
        TaskService_Checkpoint
          \<lparr>Checkpoint_ContainerID = ''redis'', Checkpoint_ParentCheckpoint = '''',
           Checkpoint_Options =
             Some \<lparr>TypeUrl = ''containerd.runc.v1.CheckpointOptions'', Value = ''{}''\<rparr>\<rparr>,
        TaskService_Resume ''redis'', Lease_done]"
proof -
  let ?cl = "sample_Client RUNNING"
  let ?cr = "\<lparr>Runtime_Name = ''io.containerd.runc.v2'',
             Container_Image = ''docker.io/library/redis:latest'',
             SnapshotKey = ''redis-rw'', Snapshotter = ''overlayfs''\<rparr>"
  let ?co = "\<lparr>Exit = False, ImagePath = ''/var/lib/checkpoints/redis'', WorkPath = ''''\<rparr>"
  let ?i0 = "\<lparr>Name = '''', ParentCheckpoint = '''', Options = Some (CheckpointOptions ?co),
             runtime = ''io.containerd.runc.v2''\<rparr>"
  let ?a = "\<lparr>TypeUrl = ''containerd.runc.v1.CheckpointOptions'', Value = ''{}''\<rparr>"
  have get: "ContainerGet_reply ?cl (task_id sample_task) = Inr ?cr"
    by (simp add: sample_defs sample_ImagePath_def)
  have rt: "Runtime_Name ?cr = RuntimeRuncV2 ?cl"
    by (simp add: sample_defs sample_ImagePath_def)
  have opts: "fst (run_checkpoint_opts [sample_ImagePath]
                 \<lparr>Name = '''', ParentCheckpoint = '''', Options = None,
                  runtime = Runtime_Name ?cr\<rparr>) = Inr ?i0"
    by (simp add: sample_defs sample_ImagePath_def)
  have o: "Options ?i0 = Some (CheckpointOptions ?co)" by simp
  have path: "ImagePath ?co \<noteq> ''''" by simp
  have lease: "WithLease ?cl = None"
    by (simp add: sample_defs sample_ImagePath_def)
  have marshal: "Marshal_options ?cl (CheckpointOptions ?co) = Inr ?a"
    by (simp add: sample_defs sample_ImagePath_def)
  have status: "fst (task_Status ?cl sample_task)
      = (\<lparr>Status = ''running'', ExitStatus = 0, ExitTime = 0\<rparr>, None)"
    by (simp add: task_Status_sample ToLower_enum)
  have pause: "Pause_reply ?cl (task_id sample_task) = None"
    by (simp add: sample_defs sample_ImagePath_def)
  have reply: "Checkpoint_reply ?cl
      \<lparr>Checkpoint_ContainerID = task_id sample_task,
       Checkpoint_ParentCheckpoint = ParentCheckpoint ?i0,
       Checkpoint_Options = Some ?a\<rparr> = Inr []"
    by (simp add: sample_defs sample_ImagePath_def)
  from Checkpoint_external_path [OF get rt opts o path] lease marshal status pause reply
  have res: "fst (Checkpoint ?cl sample_task [sample_ImagePath]) = Inr (NewImage (sample_Client RUNNING) zero_Image)"
    by blast
  have tr: "snd (Checkpoint ?cl sample_task [sample_ImagePath]) =
       [Client_WithLease, ContainerService_Get ''redis'', Call_CheckpointTaskOpt,
        Call_MarshalAnyToProto,
        TaskService_Get \<lparr>Get_ContainerID = ''redis'', Get_ExecID = ''''\<rparr>,
        TaskService_Pause ''redis'',
        TaskService_Checkpoint
          \<lparr>Checkpoint_ContainerID = ''redis'', Checkpoint_ParentCheckpoint = '''',
           Checkpoint_Options = Some ?a\<rparr>,
        TaskService_Resume ''redis'', Lease_done]"
    by (simp add: Checkpoint_defs sample_defs sample_ImagePath_def ToLower_enum status_defs)
  from res tr show ?thesis by (intro conjI)
qed

text \<open>
  Claim C7 as stated fails when a step before the short-circuit fails: the sample task
  runs on the runc-v2 runtime and is checkpointed to a directory, and \<^verbatim>\<open>Checkpoint\<close>
  returns an error and no image, once with a runtime-state call that fails and once with
  a \<^verbatim>\<open>Status\<close> that fails.
\<close>

theorem Checkpoint_external_path_error:
  "ContainerGet_reply (failing_Checkpoint (sample_Client RUNNING)) (task_id sample_task) =
     Inr \<lparr>Runtime_Name = ''io.containerd.runc.v2'',
          Container_Image = ''docker.io/library/redis:latest'',
          SnapshotKey = ''redis-rw'', Snapshotter = ''overlayfs''\<rparr>
   \<and> RuntimeRuncV2 (failing_Checkpoint (sample_Client RUNNING)) = ''io.containerd.runc.v2''
   \<and> fst (run_checkpoint_opts [sample_ImagePath]
            \<lparr>Name = '''', ParentCheckpoint = '''', Options = None,
             runtime = ''io.containerd.runc.v2''\<rparr>) =
       Inr \<lparr>Name = '''', ParentCheckpoint = '''',
            Options = Some (CheckpointOptions
              \<lparr>Exit = False, ImagePath = ''/var/lib/checkpoints/redis'', WorkPath = ''''\<rparr>),
            runtime = ''io.containerd.runc.v2''\<rparr>
   \<and> Checkpoint (failing_Checkpoint (sample_Client RUNNING)) sample_task [sample_ImagePath] =
       (Inl (Errorf ''connection refused: '' (Sentinel ErrUnavailable)),
        [Client_WithLease, ContainerService_Get ''redis'', Call_CheckpointTaskOpt,
         Call_MarshalAnyToProto,
         TaskService_Get \<lparr>Get_ContainerID = ''redis'', Get_ExecID = ''''\<rparr>,
         TaskService_Pause ''redis'',
         TaskService_Checkpoint
           \<lparr>Checkpoint_ContainerID = ''redis'', Checkpoint_ParentCheckpoint = '''',
            Checkpoint_Options =
              Some \<lparr>TypeUrl = ''containerd.runc.v1.CheckpointOptions'', Value = ''{}''\<rparr>\<rparr>,
         TaskService_Resume ''redis'', Lease_done])
   \<and> Checkpoint (failing_Get (sample_Client RUNNING)) sample_task [sample_ImagePath] =
       (Inl (Errorf ''connection refused: '' (Sentinel ErrUnavailable)),
        [Client_WithLease, ContainerService_Get ''redis'', Call_CheckpointTaskOpt,
         Call_MarshalAnyToProto,
         TaskService_Get \<lparr>Get_ContainerID = ''redis'', Get_ExecID = ''''\<rparr>,
         Lease_done])"
  by (simp add: Checkpoint_defs sample_defs sample_ImagePath_def failing_Checkpoint_def
      failing_Get_def ToLower_enum status_defs)

end
